theory Spec2Isabelle
  imports Main "HOL-Library.AList"
begin

section \<open>Data model of the quiz server (server section of gameState.js)\<close>

text \<open>
  The server keeps two module-level variables, \<^verbatim>\<open>state\<close> (an object) and
  \<^verbatim>\<open>teams\<close> (a Map from team id to team object), and the idempotency table
  \<^verbatim>\<open>_recentActions\<close>. The embedding keeps \<^verbatim>\<open>state\<close> and \<^verbatim>\<open>teams\<close> in one
  record \<open>game\<close> that every operation takes and returns, and the idempotency table in
  a record of its own. \<^verbatim>\<open>Date.now()\<close> is a parameter \<open>now\<close> of the operations that
  read the clock. Emissions to sockets (\<^verbatim>\<open>io.emit\<close>), logging and the debounced write
  \<^verbatim>\<open>markDirty\<close> do not change \<^verbatim>\<open>state\<close> or \<^verbatim>\<open>teams\<close> and are left out, with one
  exception: \<^verbatim>\<open>emitPendingResult\<close> assigns \<^verbatim>\<open>state.lastResult\<close>, which is modelled.

  JavaScript numbers are modelled as \<open>int\<close> (coins, stakes, pots and epoch
  milliseconds are integers in every path from the initial state). Objects used as
  dictionaries and the Map are association lists with one entry per key, kept in
  insertion order by \<open>AList.update\<close>; \<^verbatim>\<open>null\<close>/\<^verbatim>\<open>undefined\<close> is \<open>None\<close>.
\<close>

datatype phase = LOBBY | STAKE | CATEGORY | FINISHED

datatype elch_phase = IDLE | ANNOUNCE | BUZZ_READY | LOCK

datatype race_mode = PRE | RACE | POST | FINAL

record team =
  team_id :: string
  team_name :: string
  avatar :: string
  coins :: int
  quizJoker :: int
  joinedAt :: int

record stake_entry =
  stake :: int
  useJoker :: bool

text \<open>\<^verbatim>\<open>state.elch\<close>; \<open>elch_phase\<close> and \<open>buzzAnswerEndsAt\<close> are optional because
  \<^verbatim>\<open>adminResetAll\<close> assigns an object without them.\<close>

record elch_state =
  elch_category :: "string option"
  used :: "string list"
  buzzOrder :: "(string \<times> int) list"
  buzzLocked :: bool
  exhausted :: bool
  ephase :: "elch_phase option"
  buzzAnswerEndsAt :: "int option"

text \<open>The object stored in \<^verbatim>\<open>state.pendingResult\<close> by \<^verbatim>\<open>adminResolveRound\<close>.\<close>

record round_result =
  r_winnerId :: "string option"
  r_winnerIds :: "string list"
  r_category :: "string option"
  r_roundIndex :: int
  r_payout :: int
  r_carry :: int
  r_tiePayouts :: "(string \<times> int) list option"
  r_carriedAmount :: int
  r_at :: int

text \<open>
  A round key is the string \<^verbatim>\<open>`${category}:${roundIdx}`\<close>. The decimal rendering of the
  index holds no colon, so the text after the last colon determines the index and the
  text before it the category: the key is modelled as the pair. \<^verbatim>\<open>state.resolvedRounds\<close>
  is an object whose only stored value is \<^verbatim>\<open>true\<close>: the set of its keys.
\<close>

type_synonym round_key = "string \<times> int"

record game =
  phase :: phase
  currentCategory :: "string option"
  roundIndex :: int
  stakes :: "(string \<times> stake_entry) list"
  categoryPot :: int
  carryRound :: int
  submissions :: "(string \<times> string) list"
  fuchsHistory :: "(string \<times> (string \<times> int) list) list"
  joinCode :: "string option"
  teamLimit :: int
  timerEndsAt :: "int option"
  timerDuration :: int
  timerPausedRemaining :: int
  lastTimerEnd :: "int option"
  elch :: elch_state
  raceMode :: race_mode
  roundWins :: "(string \<times> int) list"
  resolvedRounds :: "round_key set"
  categoryEarnings :: "(string \<times> int) list"
  pendingResult :: "round_result option"
  lastResult :: "round_result option"
  teams :: "(string \<times> team) list"

definition ROUNDS_PER_CATEGORY :: int where
  "ROUNDS_PER_CATEGORY = 3"

definition initial_elch :: elch_state where
  "initial_elch = \<lparr> elch_category = None, used = [], buzzOrder = [], buzzLocked = False,
     exhausted = False, ephase = Some IDLE, buzzAnswerEndsAt = None \<rparr>"

text \<open>The object literal \<^verbatim>\<open>const state = {...}\<close> and the empty Map \<^verbatim>\<open>teams\<close>.\<close>

definition initial_game :: game where
  "initial_game = \<lparr> phase = LOBBY, currentCategory = None, roundIndex = 0, stakes = [],
     categoryPot = 0, carryRound = 0, submissions = [], fuchsHistory = [], joinCode = None,
     teamLimit = 3, timerEndsAt = None, timerDuration = 0, timerPausedRemaining = 0,
     lastTimerEnd = None, elch = initial_elch, raceMode = POST, roundWins = [],
     resolvedRounds = {}, categoryEarnings = [], pendingResult = None, lastResult = None,
     teams = [] \<rparr>"

subsection \<open>Round keys\<close>

text \<open>\<^verbatim>\<open>if (!category && category !== 0) return null\<close>: a missing or empty category has
  no round key.\<close>

definition roundKeyFor :: "string option \<Rightarrow> int \<Rightarrow> round_key option" where
  "roundKeyFor category roundIdx =
     (case category of
        None \<Rightarrow> None
      | Some c \<Rightarrow> if c = [] then None else Some (c, roundIdx))"

definition currentRoundKey :: "game \<Rightarrow> round_key option" where
  "currentRoundKey w = roundKeyFor (currentCategory w) (roundIndex w)"

definition isRoundResolved :: "game \<Rightarrow> bool" where
  "isRoundResolved w =
     (case currentRoundKey w of None \<Rightarrow> False | Some k \<Rightarrow> k \<in> resolvedRounds w)"

definition markRoundResolved :: "bool \<Rightarrow> game \<Rightarrow> game" where
  "markRoundResolved flag w =
     (case currentRoundKey w of
        None \<Rightarrow> w
      | Some k \<Rightarrow>
          if flag then w\<lparr>resolvedRounds := insert k (resolvedRounds w)\<rparr>
          else w\<lparr>resolvedRounds := resolvedRounds w - {k}\<rparr>)"

subsection \<open>Resolving a round\<close>

text \<open>The payload \<^verbatim>\<open>{ winnerId, winnerIds }\<close>: \<^verbatim>\<open>winnerId\<close> is absent, \<^verbatim>\<open>null\<close> (the
  explicit no-winner signal) or an id; \<^verbatim>\<open>winnerIds\<close> is an array (whose entries may be
  \<^verbatim>\<open>null\<close>) or anything else (\<open>None\<close>).\<close>

datatype winner_arg = WUndefined | WNull | WId string

record resolve_args =
  winnerId :: winner_arg
  winnerIds :: "string option list option"

text \<open>\<^verbatim>\<open>[...new Set(xs)]\<close> keeps the first occurrence of every element.\<close>

definition uniq :: "'a list \<Rightarrow> 'a list" where
  "uniq xs = rev (remdups (rev xs))"

definition has_team :: "game \<Rightarrow> string \<Rightarrow> bool" where
  "has_team w i = (map_of (teams w) i \<noteq> None)"

definition uniqueIds :: "game \<Rightarrow> resolve_args \<Rightarrow> string list" where
  "uniqueIds w a =
     (let chosenRaw = (case winnerIds a of None \<Rightarrow> [] | Some xs \<Rightarrow> xs)
      in filter (has_team w) (uniq (map the (filter (\<lambda>i. i \<noteq> None) chosenRaw))))"

text \<open>\<^verbatim>\<open>(obj[id]||0)\<close> on a dictionary of numbers.\<close>

definition get0 :: "(string \<times> int) list \<Rightarrow> string \<Rightarrow> int" where
  "get0 m i = (case map_of m i of None \<Rightarrow> 0 | Some v \<Rightarrow> v)"

text \<open>The body of a winner's credit: \<^verbatim>\<open>team.coins += gain\<close>, one more round win, the
  gain added to the category earnings. A missing team is skipped.\<close>

definition creditWinner :: "int \<Rightarrow> string \<Rightarrow> game \<Rightarrow> game" where
  "creditWinner gain i w =
     (case map_of (teams w) i of
        None \<Rightarrow> w
      | Some t \<Rightarrow>
          w\<lparr> teams := AList.update i (t\<lparr>coins := coins t + gain\<rparr>) (teams w),
             roundWins := AList.update i (get0 (roundWins w) i + 1) (roundWins w),
             categoryEarnings :=
               AList.update i (get0 (categoryEarnings w) i + gain) (categoryEarnings w) \<rparr>)"

definition payout_of :: "game \<Rightarrow> int" where
  "payout_of w = categoryPot w div ROUNDS_PER_CATEGORY"

definition totalPot_of :: "game \<Rightarrow> int" where
  "totalPot_of w = payout_of w + carryRound w"

text \<open>\<^verbatim>\<open>rawSingle\<close> and \<^verbatim>\<open>singleId\<close> of the branch for at most one listed winner.\<close>

definition singleId_of :: "string list \<Rightarrow> winner_arg \<Rightarrow> string option" where
  "singleId_of ids wid =
     (if length ids = 1 then Some (hd ids)
      else (case wid of WId x \<Rightarrow> Some x | _ \<Rightarrow> None))"

text \<open>The part of \<^verbatim>\<open>adminResolveRound\<close> after the two guards, up to
  \<^verbatim>\<open>if (resolved)\<close>: the new state, and \<^verbatim>\<open>resolved\<close>, \<^verbatim>\<open>resolvedWinnerId\<close>,
  \<^verbatim>\<open>resolvedWinnerIds\<close>, \<^verbatim>\<open>tieShare\<close>.\<close>

definition settle :: "game \<Rightarrow> resolve_args \<Rightarrow>
    game \<times> bool \<times> string option \<times> string list \<times> int option" where
  "settle w a =
     (let payout = payout_of w;
          ids = uniqueIds w a;
          totalPot = payout + carryRound w
      in if length ids > 1 then
           (let n = int (length ids);
                share = totalPot div n;
                remainder = totalPot - share * n;
                w1 = fold (creditWinner share) ids w;
                w2 = (if roundIndex w1 < ROUNDS_PER_CATEGORY - 1
                      then w1\<lparr>carryRound := carryRound w1 + remainder\<rparr> else w1)
            in (w2, True, None, ids, Some share))
         else
           (case singleId_of ids (winnerId a) of
              Some s \<Rightarrow>
                if s \<noteq> [] \<and> has_team w s then
                  ((creditWinner totalPot s w)\<lparr>carryRound := 0\<rparr>, True, Some s, [s], None)
                else if winnerId a = WNull then
                  (w\<lparr>carryRound := carryRound w + payout\<rparr>, True, None, [], None)
                else (w, False, None, [], None)
            | None \<Rightarrow>
                if winnerId a = WNull then
                  (w\<lparr>carryRound := carryRound w + payout\<rparr>, True, None, [], None)
                else (w, False, None, [], None)))"

definition adminResolveRound :: "int \<Rightarrow> resolve_args \<Rightarrow> game \<Rightarrow> game" where
  "adminResolveRound now a w =
     (if phase w \<noteq> CATEGORY then w
      else if isRoundResolved w then w
      else
        (case settle w a of
           (w1, resolved, resolvedWinnerId, resolvedWinnerIds, tieShare) \<Rightarrow>
             if resolved then
               (let w2 = markRoundResolved True w1;
                    res = \<lparr> r_winnerId = resolvedWinnerId,
                            r_winnerIds = resolvedWinnerIds,
                            r_category = currentCategory w2,
                            r_roundIndex = roundIndex w2,
                            r_payout = payout_of w,
                            r_carry = carryRound w2,
                            r_tiePayouts =
                              (case tieShare of
                                 Some sh \<Rightarrow>
                                   if length resolvedWinnerIds > 1
                                   then Some (fold (\<lambda>i acc. AList.update i sh acc)
                                                resolvedWinnerIds [])
                                   else None
                               | None \<Rightarrow> None),
                            r_carriedAmount =
                              (if resolvedWinnerId = None \<and> resolvedWinnerIds = []
                                  \<and> carryRound w2 > 0
                               then carryRound w2 else 0),
                            r_at = now \<rparr>
                in w2\<lparr>pendingResult := Some res, lastResult := Some res\<rparr>)
             else w1))"

subsection \<open>Truthiness, categories, decimal numerals\<close>

text \<open>JavaScript truthiness of an optional number and of an optional string:
  \<^verbatim>\<open>null\<close>, \<^verbatim>\<open>undefined\<close>, \<^verbatim>\<open>0\<close> and the empty string are falsy.\<close>

definition truthy_num :: "int option \<Rightarrow> bool" where
  "truthy_num x = (case x of None \<Rightarrow> False | Some n \<Rightarrow> n \<noteq> 0)"

definition truthy_str :: "string option \<Rightarrow> bool" where
  "truthy_str x = (case x of None \<Rightarrow> False | Some s \<Rightarrow> s \<noteq> [])"

text \<open>Strings are UTF-8 byte lists; the umlauts of the source's literals are written
  as their bytes.\<close>

definition cat_Baer :: string where
  "cat_Baer = ''B'' @ [CHR 0xC3, CHR 0xA4] @ ''r''"

definition cat_Baer_mojibake :: string where
  "cat_Baer_mojibake = ''B'' @ [CHR 0xC3, CHR 0x83, CHR 0xC2, CHR 0xA4] @ ''r''"

definition cat_Elch :: string where
  "cat_Elch = ''Elch''"

definition normalizeCategory :: "string option \<Rightarrow> string option" where
  "normalizeCategory cat =
     (if \<not> truthy_str cat then cat
      else if cat = Some cat_Baer_mojibake \<or> cat = Some ''Baer'' \<or> cat = Some ''B??r''
      then Some cat_Baer
      else cat)"

definition digit_string :: "nat \<Rightarrow> string" where
  "digit_string d = [''0123456789'' ! d]"

function show_nat :: "nat \<Rightarrow> string" where
  "show_nat n = (if n < 10 then digit_string n
                 else show_nat (n div 10) @ digit_string (n mod 10))"
  by pat_completeness auto
termination
  by (relation "measure (\<lambda>n. n)") auto

subsection \<open>Team flow\<close>

definition AVATAR_POOL :: "string list" where
  "AVATAR_POOL =
     [''/avatars/seekuh.png'', ''/avatars/waschbaer.png'', ''/avatars/roter_panda.png'',
      ''/avatars/igel.png'', ''/avatars/faultier.png'', ''/avatars/einhorn.png'',
      ''/avatars/eichhoernchen.png'', ''/avatars/capybara.png'', ''/avatars/wombat.png'',
      ''/avatars/koala.png'', ''/avatars/alpaka.png'', ''/avatars/pinguin.png'',
      ''/avatars/otter.png'', ''/avatars/giraffe.png'', ''/avatars/eisbaer.png'',
      ''/avatars/drache.png'', ''/avatars/katze.png'', ''/avatars/hund.png'',
      ''/avatars/teamjenny.png'', ''/avatars/teamjana.png'', ''/avatars/teammartin.png'']"

text \<open>\<^verbatim>\<open>teamJoin\<close>. The id is \<^verbatim>\<open>ensureTeam(socket)\<close>; \<open>cleanName\<close> is
  \<^verbatim>\<open>name?.trim()\<close>, taken as given; \<open>av\<close> is the avatar when it is a string.\<close>

definition teamJoin :: "int \<Rightarrow> string \<Rightarrow> string option \<Rightarrow> string option \<Rightarrow> game \<Rightarrow> game" where
  "teamJoin now i cleanName av w =
     (let avatar1 = map_option (\<lambda>a. if take 1 a = ''/'' then a else ''/'' @ a) av;
          isValid = (case avatar1 of None \<Rightarrow> False | Some a \<Rightarrow> a \<in> set AVATAR_POOL);
          taken = map (\<lambda>(k, t). avatar t) (teams w);
          free = (isValid \<and> the avatar1 \<notin> set taken)
      in case map_of (teams w) i of
           None \<Rightarrow>
             (let finalAvatar =
                    (if free then the avatar1
                     else (case find (\<lambda>a. a \<notin> set taken) AVATAR_POOL of
                             Some a \<Rightarrow> a | None \<Rightarrow> hd AVATAR_POOL));
                  nm = (if truthy_str cleanName then the cleanName
                        else ''Team '' @ show_nat (length (teams w) + 1))
              in w\<lparr>teams := AList.update i
                     \<lparr> team_id = i, team_name = nm, avatar = finalAvatar, coins = 24,
                       quizJoker = 1, joinedAt = now \<rparr> (teams w)\<rparr>)
         | Some t \<Rightarrow>
             (let t1 = (if truthy_str cleanName then t\<lparr>team_name := the cleanName\<rparr> else t);
                  t2 = (if free then t1\<lparr>avatar := the avatar1\<rparr> else t1)
              in w\<lparr>teams := AList.update i t2 (teams w)\<rparr>))"

text \<open>\<^verbatim>\<open>teamSetStake\<close>; \<open>st\<close> is \<^verbatim>\<open>Number(stake)\<close> and \<open>uj\<close> the truthiness of
  \<^verbatim>\<open>useJoker\<close>. A value that is no integer is in neither list of allowed stakes and
  behaves as any integer outside them.\<close>

definition dynamicValid :: "game \<Rightarrow> int list" where
  "dynamicValid w = (if teamLimit w > 2 then [0, 3, 6, 9] else [0, 3, 6])"

definition teamSetStake :: "string \<Rightarrow> int \<Rightarrow> bool \<Rightarrow> game \<Rightarrow> game" where
  "teamSetStake i st uj w =
     (if phase w \<noteq> STAKE then w
      else case map_of (teams w) i of
        None \<Rightarrow> w
      | Some t \<Rightarrow>
          (let s0 = (if st \<in> set (dynamicValid w) then st else 0);
               s = (if coins t < 3 \<and> s0 > 0 then 0 else s0);
               allowJoker = (uj \<and> quizJoker t > 0 \<and> s > 0)
           in w\<lparr>stakes := AList.update i \<lparr>stake = s, useJoker = allowJoker\<rparr> (stakes w)\<rparr>))"

text \<open>The answer window after the first buzz: the environment variable when it is a
  positive finite number (\<open>None\<close>: unset or not a number), else 45 seconds.\<close>

definition ELCH_ANSWER_WINDOW_MS :: "int option \<Rightarrow> int" where
  "ELCH_ANSWER_WINDOW_MS env =
     (case env of None \<Rightarrow> 45000 | Some raw \<Rightarrow> if raw > 0 then raw else 45000)"

text \<open>
  \<^verbatim>\<open>game.teamSubmit(io, socket, 'Elch', { buzz:true })\<close>, the call of the
  \<^verbatim>\<open>team:elch:buzz\<close> handler: the phase and category check, the grace window of the
  round timer, then the buzz branch, which always returns. The branch that stores
  text submissions of the other categories is not reached by this call.
\<close>

definition GRACE_MS :: int where
  "GRACE_MS = 300"

text \<open>The test that drops a submission: a timer was started, it is not running, it
  expired naturally, and that was more than the grace window ago.\<close>

definition too_late :: "int \<Rightarrow> game \<Rightarrow> bool" where
  "too_late now w =
     (timerDuration w > 0 \<and> \<not> truthy_num (timerEndsAt w) \<and> truthy_num (lastTimerEnd w)
        \<and> now - the (lastTimerEnd w) > GRACE_MS)"

definition teamSubmit_Elch_buzz :: "int option \<Rightarrow> int \<Rightarrow> string \<Rightarrow> game \<Rightarrow> game" where
  "teamSubmit_Elch_buzz env now i w =
     (if phase w \<noteq> CATEGORY then w
      else if normalizeCategory (currentCategory w) \<noteq> normalizeCategory (Some cat_Elch) then w
      else if too_late now w then w
      else if \<not> truthy_str (elch_category (elch w)) then w
      else
        (let e = elch w;
             already = (i \<in> fst ` set (buzzOrder e))
         in if \<not> buzzLocked e \<and> \<not> already then
              (let e1 = e\<lparr>buzzOrder := buzzOrder e @ [(i, now)]\<rparr>;
                   e2 = (if length (buzzOrder e1) = 1 then
                           e1\<lparr> buzzLocked := True, ephase := Some LOCK,
                               buzzAnswerEndsAt :=
                                 (if \<not> truthy_num (buzzAnswerEndsAt e1)
                                  then Some (now + ELCH_ANSWER_WINDOW_MS env)
                                  else buzzAnswerEndsAt e1) \<rparr>
                         else e1)
               in w\<lparr>elch := e2\<rparr>)
            else w))"

subsection \<open>Admin flow: teams, category start, stake lock\<close>

text \<open>The patch of \<^verbatim>\<open>adminTeamUpdate\<close>: a field is \<open>Some\<close> when the payload holds a
  value of the type the code tests with \<^verbatim>\<open>typeof\<close>.\<close>

record team_patch =
  p_coins :: "int option"
  p_quizJoker :: "int option"
  p_name :: "string option"
  p_avatar :: "string option"

definition adminTeamUpdate :: "string \<Rightarrow> team_patch \<Rightarrow> game \<Rightarrow> game" where
  "adminTeamUpdate i patch w =
     (case map_of (teams w) i of
        None \<Rightarrow> w
      | Some t \<Rightarrow>
          (let t1 = (case p_coins patch of Some c \<Rightarrow> t\<lparr>coins := c\<rparr> | None \<Rightarrow> t);
               t2 = (case p_quizJoker patch of Some q \<Rightarrow> t1\<lparr>quizJoker := q\<rparr> | None \<Rightarrow> t1);
               t3 = (case p_name patch of Some n \<Rightarrow> t2\<lparr>team_name := n\<rparr> | None \<Rightarrow> t2);
               t4 = (case p_avatar patch of Some a \<Rightarrow> t3\<lparr>avatar := a\<rparr> | None \<Rightarrow> t3)
           in w\<lparr>teams := AList.update i t4 (teams w)\<rparr>))"

definition adminTeamKick :: "string option \<Rightarrow> game \<Rightarrow> game" where
  "adminTeamKick ido w =
     (if \<not> truthy_str ido then w
      else if \<not> has_team w (the ido) then w
      else
        (let i = the ido
         in w\<lparr> teams := AList.delete i (teams w),
               stakes := AList.delete i (stakes w),
               submissions := AList.delete i (submissions w),
               categoryEarnings := AList.delete i (categoryEarnings w),
               roundWins := AList.delete i (roundWins w),
               elch := (elch w)\<lparr>buzzOrder := filter (\<lambda>b. fst b \<noteq> i) (buzzOrder (elch w))\<rparr> \<rparr>))"

text \<open>The table \<^verbatim>\<open>fixed\<close> of the Elch rounds: \<^verbatim>\<open>fixed.find(r => r.round === roundIndex)
  || fixed[0]\<close>, as (primary, fallback).\<close>

definition elch_fixed :: "int \<Rightarrow> string \<times> string" where
  "elch_fixed r =
     (if r = 1 then (''Tiere'', ''Marken'')
      else if r = 2 then (''L'' @ [CHR 0xC3, CHR 0xA4] @ ''nder'',
                          ''Dinge aus der K'' @ [CHR 0xC3, CHR 0xBC] @ ''che'')
      else (''St'' @ [CHR 0xC3, CHR 0xA4] @ ''dte'', ''Berufe''))"

text \<open>The automatic choice of a label at category start and on round navigation:
  the primary, the fallback if the primary was used, exhausted if both were.\<close>

definition elch_autopick :: "int \<Rightarrow> elch_state \<Rightarrow> elch_state" where
  "elch_autopick r e =
     (let pick0 = fst (elch_fixed r);
          pick = (if pick0 \<in> set (used e) then snd (elch_fixed r) else pick0)
      in if pick \<in> set (used e) then
           e\<lparr>exhausted := True, elch_category := None, ephase := Some LOCK\<rparr>
         else
           e\<lparr>elch_category := Some pick, used := used e @ [pick],
             ephase := Some BUZZ_READY, buzzAnswerEndsAt := None\<rparr>)"

definition adminStartCategory :: "string option \<Rightarrow> game \<Rightarrow> game" where
  "adminStartCategory category w =
     (let w1 = w\<lparr> phase := STAKE, currentCategory := normalizeCategory category,
                  roundIndex := 0, stakes := [], categoryPot := 0, carryRound := 0,
                  submissions := [], roundWins := [], categoryEarnings := [],
                  resolvedRounds := {}, elch := initial_elch \<rparr>
      in if category = Some cat_Elch
         then w1\<lparr>elch := elch_autopick (roundIndex w1) (elch w1)\<rparr>
         else w1)"

text \<open>\<^verbatim>\<open>adminSetTeamLimit\<close>; \<open>limit\<close> is \<^verbatim>\<open>Number(limit)\<close> when that is a number.\<close>

definition adminSetTeamLimit :: "int option \<Rightarrow> game \<Rightarrow> game" where
  "adminSetTeamLimit limit w =
     (let l = (if truthy_num limit then the limit else 3);
          n = max 2 (min 5 l)
      in if n \<noteq> teamLimit w then w\<lparr>teamLimit := n\<rparr> else w)"

text \<open>The loop of \<^verbatim>\<open>adminLockStakes\<close> over \<^verbatim>\<open>Object.entries(state.stakes)\<close>: one
  iteration debits the stake, floored at 0, and spends the joker; a stake entry of a
  team that is not registered is skipped.\<close>

definition debitStake :: "string \<times> stake_entry \<Rightarrow> (string \<times> team) list \<Rightarrow> (string \<times> team) list" where
  "debitStake e ts =
     (case map_of ts (fst e) of
        None \<Rightarrow> ts
      | Some t \<Rightarrow>
          (let t1 = t\<lparr>coins := max 0 (coins t - stake (snd e))\<rparr>;
               t2 = (if useJoker (snd e) then t1\<lparr>quizJoker := 0\<rparr> else t1)
           in AList.update (fst e) t2 ts))"

definition sumEinsatz :: "(string \<times> stake_entry) list \<Rightarrow> int" where
  "sumEinsatz ss = fold (\<lambda>e a. a + stake (snd e)) ss 0"

definition jokerExtra :: "(string \<times> stake_entry) list \<Rightarrow> int" where
  "jokerExtra ss = fold (\<lambda>e a. a + (if useJoker (snd e) then stake (snd e) else 0)) ss 0"

text \<open>\<^verbatim>\<open>adminLockStakes\<close> has no guard on the phase.\<close>

definition adminLockStakes :: "game \<Rightarrow> game" where
  "adminLockStakes w =
     w\<lparr> teams := fold debitStake (stakes w) (teams w),
        categoryPot := sumEinsatz (stakes w) + jokerExtra (stakes w) + 3,
        phase := CATEGORY \<rparr>"

subsection \<open>Admin flow: announcing, undoing, navigating rounds\<close>

definition adminRoundEnd :: "game \<Rightarrow> game" where
  "adminRoundEnd w =
     (case pendingResult w of
        None \<Rightarrow> w
      | Some r \<Rightarrow>
          if r_category r \<noteq> currentCategory w then w
          else if r_roundIndex r \<noteq> roundIndex w then w
          else w\<lparr>pendingResult := None\<rparr>)"

text \<open>The snapshot of \<^verbatim>\<open>adminRoundUndo\<close>: \<open>u_coins\<close> is the object \<^verbatim>\<open>coins\<close> when it
  is one, with \<open>None\<close> for a value that is not a finite number; \<open>u_carryRound\<close> is
  \<open>Some\<close> for a finite number. \<^verbatim>\<open>Math.floor\<close> of an integer is the integer.\<close>

record undo_snapshot =
  u_coins :: "(string \<times> int option) list option"
  u_carryRound :: "int option"

definition restoreCoin :: "string \<times> int option \<Rightarrow> (string \<times> team) list \<Rightarrow> (string \<times> team) list" where
  "restoreCoin e ts =
     (case (snd e, map_of ts (fst e)) of
        (Some v, Some t) \<Rightarrow> AList.update (fst e) (t\<lparr>coins := max 0 v\<rparr>) ts
      | _ \<Rightarrow> ts)"

text \<open>The result the undo refers to: the pending one if it is of the current round,
  else the last announced one if that is.\<close>

definition undo_last :: "game \<Rightarrow> round_result option" where
  "undo_last w =
     (let matches = (\<lambda>r. r_category r = currentCategory w \<and> r_roundIndex r = roundIndex w)
      in case pendingResult w of
           Some r \<Rightarrow>
             if matches r then Some r
             else (case lastResult w of
                     Some l \<Rightarrow> if matches l then Some l else None
                   | None \<Rightarrow> None)
         | None \<Rightarrow>
             (case lastResult w of
                Some l \<Rightarrow> if matches l then Some l else None
              | None \<Rightarrow> None))"

definition uncreditWinner :: "round_result \<Rightarrow> string \<Rightarrow> game \<Rightarrow> game" where
  "uncreditWinner l i w =
     (let w1 = (if get0 (roundWins w) i \<noteq> 0
                then w\<lparr>roundWins := AList.update i (max 0 (get0 (roundWins w) i - 1)) (roundWins w)\<rparr>
                else w);
          tie = (case r_tiePayouts l of None \<Rightarrow> None | Some tp \<Rightarrow> map_of tp i);
          gain = (case tie of
                    Some g \<Rightarrow> g
                  | None \<Rightarrow> if r_winnerId l = Some i then r_payout l + r_carry l else 0)
      in if gain \<noteq> 0 \<and> get0 (categoryEarnings w1) i \<noteq> 0
         then w1\<lparr>categoryEarnings :=
                   AList.update i (max 0 (get0 (categoryEarnings w1) i - gain)) (categoryEarnings w1)\<rparr>
         else w1)"

definition adminRoundUndo :: "undo_snapshot option \<Rightarrow> game \<Rightarrow> game" where
  "adminRoundUndo snapshot w =
     (if phase w \<noteq> CATEGORY then w
      else if \<not> isRoundResolved w then w
      else
        (let coinMap = (case snapshot of None \<Rightarrow> None | Some sn \<Rightarrow> u_coins sn);
             carry = (case snapshot of None \<Rightarrow> None | Some sn \<Rightarrow> u_carryRound sn);
             w1 = (case coinMap of
                     None \<Rightarrow> w
                   | Some cm \<Rightarrow> w\<lparr>teams := fold restoreCoin cm (teams w)\<rparr>);
             w2 = (case carry of None \<Rightarrow> w1 | Some c \<Rightarrow> w1\<lparr>carryRound := max 0 c\<rparr>);
             w3 = (case undo_last w2 of
                     None \<Rightarrow> w2
                   | Some l \<Rightarrow>
                       (let winners = (if r_winnerIds l \<noteq> [] then r_winnerIds l
                                       else (case r_winnerId l of Some x \<Rightarrow> [x] | None \<Rightarrow> []))
                        in fold (uncreditWinner l) winners w2))
         in markRoundResolved False (w3\<lparr>pendingResult := None, lastResult := None\<rparr>)))"

text \<open>What \<^verbatim>\<open>adminRoundNext\<close> and \<^verbatim>\<open>adminRoundPrev\<close> do to the Elch state when the
  current category is exactly \<^verbatim>\<open>'Elch'\<close>.\<close>

definition elch_rearm :: "game \<Rightarrow> game" where
  "elch_rearm w =
     (if currentCategory w = Some cat_Elch
      then w\<lparr>elch := elch_autopick (roundIndex w)
                       ((elch w)\<lparr>buzzOrder := [], buzzLocked := False\<rparr>)\<rparr>
      else w)"

definition adminRoundNext :: "game \<Rightarrow> game" where
  "adminRoundNext w =
     (if phase w \<noteq> CATEGORY then w
      else
        (let w1 = markRoundResolved False (w\<lparr>pendingResult := None, lastResult := None\<rparr>);
             w2 = w1\<lparr>roundIndex := min (ROUNDS_PER_CATEGORY - 1) (roundIndex w1 + 1),
                     submissions := []\<rparr>
         in elch_rearm w2))"

definition adminRoundPrev :: "game \<Rightarrow> game" where
  "adminRoundPrev w =
     (if phase w \<noteq> CATEGORY then w
      else
        (let w1 = markRoundResolved False (w\<lparr>pendingResult := None, lastResult := None\<rparr>);
             w2 = w1\<lparr>roundIndex := max 0 (roundIndex w1 - 1), submissions := []\<rparr>
         in elch_rearm w2))"

definition adminFinishCategory :: "game \<Rightarrow> game" where
  "adminFinishCategory w =
     w\<lparr> phase := LOBBY, currentCategory := None, roundIndex := 0, stakes := [],
        categoryPot := 0, carryRound := 0, submissions := [], roundWins := [],
        categoryEarnings := [], resolvedRounds := {}, pendingResult := None,
        lastResult := None, elch := initial_elch \<rparr>"

definition adminGotoLobby :: "game \<Rightarrow> game" where
  "adminGotoLobby w =
     w\<lparr> phase := LOBBY, currentCategory := None, roundIndex := 0, stakes := [],
        categoryPot := 0, carryRound := 0, submissions := [], roundWins := [],
        categoryEarnings := [], resolvedRounds := {}, pendingResult := None,
        lastResult := None, elch := initial_elch \<rparr>"

subsection \<open>Timer\<close>

text \<open>\<open>seconds\<close> is \<^verbatim>\<open>Number(seconds)||0\<close>.\<close>

definition adminTimerStart :: "int \<Rightarrow> int \<Rightarrow> game \<Rightarrow> game" where
  "adminTimerStart now seconds w =
     (let s = max 1 (min 999 seconds)
      in w\<lparr> timerDuration := s, timerEndsAt := Some (now + s * 1000),
            timerPausedRemaining := 0, lastTimerEnd := None \<rparr>)"

text \<open>\<^verbatim>\<open>Math.ceil(x / 1000)\<close> on an integer \<open>x\<close> is \<open>- ((- x) div 1000)\<close>.\<close>

definition adminTimerStop :: "int \<Rightarrow> game \<Rightarrow> game" where
  "adminTimerStop now w =
     (let w1 = (if truthy_num (timerEndsAt w)
                then w\<lparr>timerPausedRemaining :=
                         max 0 (- ((- (the (timerEndsAt w) - now)) div 1000))\<rparr>
                else w)
      in w1\<lparr>timerEndsAt := None\<rparr>)"

definition adminTimerReset :: "game \<Rightarrow> game" where
  "adminTimerReset w = w\<lparr>timerEndsAt := None, timerDuration := 0, timerPausedRemaining := 0\<rparr>"

definition adminTimerResume :: "int \<Rightarrow> game \<Rightarrow> game" where
  "adminTimerResume now w =
     (if \<not> truthy_num (timerEndsAt w) \<and> timerPausedRemaining w > 0 then
        (let s = max 1 (timerPausedRemaining w)
         in w\<lparr>timerEndsAt := Some (now + s * 1000), timerPausedRemaining := 0\<rparr>)
      else w)"

text \<open>The 300 ms interval that records the natural expiry of the round timer.\<close>

definition timerTick :: "int \<Rightarrow> game \<Rightarrow> game" where
  "timerTick now w =
     (if phase w = CATEGORY \<and> truthy_num (timerEndsAt w) \<and> now \<ge> the (timerEndsAt w)
      then w\<lparr>timerEndsAt := None, lastTimerEnd := timerEndsAt w\<rparr>
      else w)"

subsection \<open>Elch admin\<close>

definition adminElchDraw :: "game \<Rightarrow> game" where
  "adminElchDraw w =
     (if currentCategory w \<noteq> Some cat_Elch then w
      else
        (let e = elch w; primary = fst (elch_fixed (roundIndex w))
         in w\<lparr>elch := e\<lparr> elch_category := Some primary,
                         used := (if primary \<in> set (used e) then used e else used e @ [primary]),
                         exhausted := False, buzzOrder := [], buzzLocked := False,
                         ephase := Some BUZZ_READY, buzzAnswerEndsAt := None \<rparr>\<rparr>))"

definition adminElchSetLock :: "bool \<Rightarrow> game \<Rightarrow> game" where
  "adminElchSetLock locked w =
     (if currentCategory w \<noteq> Some cat_Elch then w
      else
        (let e1 = (elch w)\<lparr>buzzLocked := locked\<rparr>;
             e2 = (if locked then e1\<lparr>ephase := Some LOCK\<rparr> else e1)
         in w\<lparr>elch := e2\<rparr>))"

definition adminElchClearBuzz :: "game \<Rightarrow> game" where
  "adminElchClearBuzz w =
     (if currentCategory w \<noteq> Some cat_Elch then w
      else
        (let e = (elch w)\<lparr>buzzOrder := [], buzzLocked := False\<rparr>;
             primary = fst (elch_fixed (roundIndex w));
             fallback = snd (elch_fixed (roundIndex w));
             pick = (if elch_category e = Some primary then fallback else primary)
         in w\<lparr>elch := e\<lparr> elch_category := Some pick,
                         used := (if pick \<in> set (used e) then used e else used e @ [pick]),
                         exhausted := False, ephase := Some BUZZ_READY,
                         buzzAnswerEndsAt := None \<rparr>\<rparr>))"

definition adminElchConfirm :: "int \<Rightarrow> string option \<Rightarrow> game \<Rightarrow> game" where
  "adminElchConfirm now teamId w =
     (if currentCategory w \<noteq> Some cat_Elch then w
      else if phase w \<noteq> CATEGORY then w
      else if isRoundResolved w then w
      else
        (let first = (case buzzOrder (elch w) of [] \<Rightarrow> None | b # _ \<Rightarrow> Some (fst b));
             wid = (if truthy_str teamId \<and> has_team w (the teamId) then teamId else first)
         in if \<not> truthy_str wid then w
            else if \<not> has_team w (the wid) then w
            else
              adminResolveRound now \<lparr>winnerId = WId (the wid), winnerIds = None\<rparr>
                (w\<lparr>elch := (elch w)\<lparr>buzzAnswerEndsAt := None, ephase := Some LOCK,
                                     buzzLocked := True\<rparr>\<rparr>)))"

definition adminElchUnlock :: "game \<Rightarrow> game" where
  "adminElchUnlock w =
     (if currentCategory w \<noteq> Some cat_Elch then w
      else if exhausted (elch w) then w
      else w\<lparr>elch := (elch w)\<lparr> buzzOrder := [], buzzLocked := False,
                               ephase := Some BUZZ_READY, buzzAnswerEndsAt := None \<rparr>\<rparr>)"

text \<open>The one-second interval that re-opens the buzzer when the answer window has
  passed and the round is not resolved.\<close>

definition elchAutoUnlockTick :: "int \<Rightarrow> game \<Rightarrow> game" where
  "elchAutoUnlockTick now w =
     (if phase w = CATEGORY \<and> currentCategory w = Some cat_Elch
         \<and> truthy_num (buzzAnswerEndsAt (elch w)) \<and> now > the (buzzAnswerEndsAt (elch w))
         \<and> \<not> isRoundResolved w
      then w\<lparr>elch := (elch w)\<lparr> buzzLocked := False, ephase := Some BUZZ_READY,
                               buzzOrder := [], buzzAnswerEndsAt := None \<rparr>\<rparr>
      else w)"

subsection \<open>Race mode and full reset\<close>

text \<open>\<open>mode\<close> is the upper-cased string when it is one of the four modes. The timeout
  that moves \<^verbatim>\<open>RACE\<close> to \<^verbatim>\<open>POST\<close> after 12 seconds is \<open>raceAutoPost\<close>.\<close>

definition adminRaceSet :: "race_mode option \<Rightarrow> game \<Rightarrow> game" where
  "adminRaceSet mode w = (case mode of None \<Rightarrow> w | Some m \<Rightarrow> w\<lparr>raceMode := m\<rparr>)"

definition raceAutoPost :: "game \<Rightarrow> game" where
  "raceAutoPost w = w\<lparr>raceMode := POST\<rparr>"

definition adminResetAll :: "game \<Rightarrow> game" where
  "adminResetAll w =
     w\<lparr> phase := LOBBY, currentCategory := None, roundIndex := 0, stakes := [],
        categoryPot := 0, carryRound := 0, submissions := [], timerEndsAt := None,
        timerDuration := 0, timerPausedRemaining := 0,
        elch := \<lparr> elch_category = None, used = [], buzzOrder = [], buzzLocked = False,
                  exhausted = False, ephase = None, buzzAnswerEndsAt = None \<rparr>,
        raceMode := POST, joinCode := None, teams := [] \<rparr>"

subsection \<open>Idempotency guard\<close>

text \<open>\<^verbatim>\<open>_recentActions\<close>, a Map from action id to the time it was first seen, and its
  ad-hoc property \<^verbatim>\<open>_lastPurge\<close>.\<close>

record guard =
  recent :: "(string \<times> int) list"
  lastPurge :: "int option"

definition IDEMP_WINDOW_MS :: int where
  "IDEMP_WINDOW_MS = 10000"

definition initial_guard :: guard where
  "initial_guard = \<lparr>recent = [], lastPurge = None\<rparr>"

definition purge :: "int \<Rightarrow> guard \<Rightarrow> guard" where
  "purge now g =
     (if recent g \<noteq> [] \<and> (case lastPurge g of None \<Rightarrow> 0 | Some l \<Rightarrow> l) + 60000 < now
      then \<lparr> recent = filter (\<lambda>e. \<not> (now - snd e > IDEMP_WINDOW_MS)) (recent g),
             lastPurge = Some now \<rparr>
      else g)"

text \<open>\<^verbatim>\<open>isDuplicateAction\<close> returns its answer and leaves the table changed.\<close>

definition isDuplicateAction :: "int \<Rightarrow> string option \<Rightarrow> guard \<Rightarrow> bool \<times> guard" where
  "isDuplicateAction now actionId g =
     (if \<not> truthy_str actionId then (False, g)
      else
        (let g1 = purge now g
         in if map_of (recent g1) (the actionId) \<noteq> None then (True, g1)
            else (False, g1\<lparr>recent := AList.update (the actionId) now (recent g1)\<rparr>)))"

text \<open>The shape of the guarded socket handlers,
  \<^verbatim>\<open>if (isDuplicateAction(p.actionId)) return; game.op(...)\<close>, on the pair of the
  idempotency table and the game.\<close>

definition guarded :: "int \<Rightarrow> string option \<Rightarrow> (game \<Rightarrow> game) \<Rightarrow> guard \<times> game \<Rightarrow> guard \<times> game" where
  "guarded now actionId op gw =
     (case isDuplicateAction now actionId (fst gw) of
        (dup, g1) \<Rightarrow> if dup then (g1, snd gw) else (g1, op (snd gw)))"

text \<open>The handler of \<^verbatim>\<open>team:setStake\<close>.\<close>

definition on_team_setStake ::
    "int \<Rightarrow> string \<Rightarrow> string option \<Rightarrow> int \<Rightarrow> bool \<Rightarrow> guard \<times> game \<Rightarrow> guard \<times> game" where
  "on_team_setStake now i actionId st uj gw = guarded now actionId (teamSetStake i st uj) gw"

subsection \<open>Persistence\<close>

text \<open>
  \<^verbatim>\<open>serializeState\<close> builds the object that is sent to clients; \<^verbatim>\<open>snapshotState\<close> is
  that object without \<^verbatim>\<open>serverNow\<close>, and it is what \<^verbatim>\<open>markDirty\<close> and
  \<^verbatim>\<open>flushPersistSync\<close> write to \<^verbatim>\<open>state.json\<close>. Writing and parsing JSON is the
  identity on these values.
\<close>

record snapshot =
  s_phase :: phase
  s_currentCategory :: "string option"
  s_roundIndex :: int
  s_roundResolved :: bool
  s_stakes :: "(string \<times> stake_entry) list"
  s_categoryPot :: int
  s_carryRound :: int
  s_submissions :: "(string \<times> string) list"
  s_fuchsHistory :: "(string \<times> (string \<times> int) list) list"
  s_joinCode :: "string option"
  s_teamLimit :: int
  s_timerEndsAt :: "int option"
  s_timerDuration :: int
  s_timerPausedRemaining :: int
  s_elch :: elch_state
  s_raceMode :: race_mode

record wire_state = snapshot +
  s_serverNow :: int

definition serializeState :: "int \<Rightarrow> game \<Rightarrow> wire_state" where
  "serializeState now w =
     \<lparr> s_phase = phase w, s_currentCategory = currentCategory w, s_roundIndex = roundIndex w,
       s_roundResolved = isRoundResolved w, s_stakes = stakes w,
       s_categoryPot = categoryPot w, s_carryRound = carryRound w,
       s_submissions = submissions w, s_fuchsHistory = fuchsHistory w,
       s_joinCode = joinCode w, s_teamLimit = teamLimit w, s_timerEndsAt = timerEndsAt w,
       s_timerDuration = timerDuration w, s_timerPausedRemaining = timerPausedRemaining w,
       s_elch = elch w, s_raceMode = raceMode w, s_serverNow = now \<rparr>"

definition snapshotState :: "int \<Rightarrow> game \<Rightarrow> snapshot" where
  "snapshotState now w = snapshot.truncate (serializeState now w)"

definition snapshotTeams :: "game \<Rightarrow> team list" where
  "snapshotTeams w = map snd (teams w)"

text \<open>
  \<^verbatim>\<open>loadPersisted\<close> on the contents of the two files (\<open>None\<close>: the file does not exist
  or does not parse). For the state it copies \<^verbatim>\<open>raw[k]\<close> for every key \<^verbatim>\<open>k\<close> of
  \<^verbatim>\<open>state\<close> that is in \<^verbatim>\<open>raw\<close>: of the keys of a snapshot these are all but
  \<^verbatim>\<open>roundResolved\<close>, which is no key of \<^verbatim>\<open>state\<close>. The keys of \<^verbatim>\<open>state\<close> that no
  snapshot holds keep the value they have.
\<close>

definition loadPersisted :: "snapshot option \<Rightarrow> team list option \<Rightarrow> game \<Rightarrow> game" where
  "loadPersisted rawState rawTeams w =
     (let w1 = (case rawState of
                  None \<Rightarrow> w
                | Some raw \<Rightarrow>
                    w\<lparr> phase := s_phase raw, currentCategory := s_currentCategory raw,
                       roundIndex := s_roundIndex raw, stakes := s_stakes raw,
                       categoryPot := s_categoryPot raw, carryRound := s_carryRound raw,
                       submissions := s_submissions raw, fuchsHistory := s_fuchsHistory raw,
                       joinCode := s_joinCode raw, teamLimit := s_teamLimit raw,
                       timerEndsAt := s_timerEndsAt raw, timerDuration := s_timerDuration raw,
                       timerPausedRemaining := s_timerPausedRemaining raw,
                       elch := s_elch raw, raceMode := s_raceMode raw \<rparr>)
      in case rawTeams of
           None \<Rightarrow> w1
         | Some arr \<Rightarrow>
             w1\<lparr>teams := fold (\<lambda>t ts. if team_id t \<noteq> [] then AList.update (team_id t) t ts else ts)
                            arr []\<rparr>)"

text \<open>A restart: the process writes both files (\<^verbatim>\<open>flushPersistSync\<close>), and the new
  process runs \<^verbatim>\<open>loadPersisted\<close> on its initial state.\<close>

definition restart :: "int \<Rightarrow> game \<Rightarrow> game" where
  "restart now w = loadPersisted (Some (snapshotState now w)) (Some (snapshotTeams w)) initial_game"

subsection \<open>The command surface\<close>

text \<open>
  The operations of the object \<^verbatim>\<open>game\<close> and the three timed callbacks, as commands
  with their payloads. \<open>step\<close> runs one of them at time \<open>now\<close>; \<open>env\<close> is the
  configured answer window. The storing of text submissions, which writes only
  \<^verbatim>\<open>state.submissions\<close> and \<^verbatim>\<open>state.fuchsHistory\<close>, is not among them.
\<close>

datatype command =
    TeamJoin string "string option" "string option"
  | TeamSetStake string int bool
  | TeamElchBuzz string
  | AdminTeamUpdate string team_patch
  | AdminTeamKick "string option"
  | AdminStartCategory "string option"
  | AdminSetTeamLimit "int option"
  | AdminLockStakes
  | AdminResolveRound resolve_args
  | AdminRoundEnd
  | AdminRoundUndo "undo_snapshot option"
  | AdminRoundNext
  | AdminRoundPrev
  | AdminFinishCategory
  | AdminGotoLobby
  | AdminTimerStart int
  | AdminTimerStop
  | AdminTimerReset
  | AdminTimerResume
  | AdminElchDraw
  | AdminElchSetLock bool
  | AdminElchClearBuzz
  | AdminElchConfirm "string option"
  | AdminElchUnlock
  | AdminRaceSet "race_mode option"
  | AdminResetAll
  | TimerTick
  | ElchAutoUnlockTick
  | RaceAutoPost

fun step :: "int option \<Rightarrow> int \<Rightarrow> command \<Rightarrow> game \<Rightarrow> game" where
  "step env now (TeamJoin i n a) w = teamJoin now i n a w"
| "step env now (TeamSetStake i st uj) w = teamSetStake i st uj w"
| "step env now (TeamElchBuzz i) w = teamSubmit_Elch_buzz env now i w"
| "step env now (AdminTeamUpdate i p) w = adminTeamUpdate i p w"
| "step env now (AdminTeamKick i) w = adminTeamKick i w"
| "step env now (AdminStartCategory c) w = adminStartCategory c w"
| "step env now (AdminSetTeamLimit l) w = adminSetTeamLimit l w"
| "step env now AdminLockStakes w = adminLockStakes w"
| "step env now (AdminResolveRound a) w = adminResolveRound now a w"
| "step env now AdminRoundEnd w = adminRoundEnd w"
| "step env now (AdminRoundUndo sn) w = adminRoundUndo sn w"
| "step env now AdminRoundNext w = adminRoundNext w"
| "step env now AdminRoundPrev w = adminRoundPrev w"
| "step env now AdminFinishCategory w = adminFinishCategory w"
| "step env now AdminGotoLobby w = adminGotoLobby w"
| "step env now (AdminTimerStart sec) w = adminTimerStart now sec w"
| "step env now AdminTimerStop w = adminTimerStop now w"
| "step env now AdminTimerReset w = adminTimerReset w"
| "step env now AdminTimerResume w = adminTimerResume now w"
| "step env now AdminElchDraw w = adminElchDraw w"
| "step env now (AdminElchSetLock l) w = adminElchSetLock l w"
| "step env now AdminElchClearBuzz w = adminElchClearBuzz w"
| "step env now (AdminElchConfirm t) w = adminElchConfirm now t w"
| "step env now AdminElchUnlock w = adminElchUnlock w"
| "step env now (AdminRaceSet m) w = adminRaceSet m w"
| "step env now AdminResetAll w = adminResetAll w"
| "step env now TimerTick w = timerTick now w"
| "step env now ElchAutoUnlockTick w = elchAutoUnlockTick now w"
| "step env now RaceAutoPost w = raceAutoPost w"

text \<open>A run of timed commands from a state.\<close>

fun run :: "int option \<Rightarrow> (int \<times> command) list \<Rightarrow> game \<Rightarrow> game" where
  "run env [] w = w"
| "run env (c # cs) w = run env cs (step env (fst c) (snd c) w)"

text \<open>The commands that set \<^verbatim>\<open>state.categoryPot\<close>.\<close>

fun sets_pot :: "command \<Rightarrow> bool" where
  "sets_pot (AdminStartCategory c) = True"
| "sets_pot AdminLockStakes = True"
| "sets_pot AdminFinishCategory = True"
| "sets_pot AdminGotoLobby = True"
| "sets_pot AdminResetAll = True"
| "sets_pot c = False"

text \<open>A run of calls of \<^verbatim>\<open>isDuplicateAction\<close>, each at its time with its action id.\<close>

definition guard_calls :: "(int \<times> string option) list \<Rightarrow> guard \<Rightarrow> guard" where
  "guard_calls cs g = fold (\<lambda>c g'. snd (isDuplicateAction (fst c) (snd c) g')) cs g"

text \<open>
  The routing of socket events to the operations. \<open>consults_guard\<close> holds for the
  commands whose handler begins with \<^verbatim>\<open>if(isDuplicateAction(p.actionId)) return;\<close>; the
  handlers of the other commands call the operation at once. The handler of
  \<^verbatim>\<open>team:elch:buzz\<close> asks the guard with the key \<^verbatim>\<open>socket.id+':elchBuzz'\<close> in place of
  an action id. On the events that start a category, move to the next or previous round
  or finish a category a second listener is registered, without a guard, that empties
  \<^verbatim>\<open>state.fuchsHistory\<close> and \<^verbatim>\<open>state.submissions\<close>; listeners run in the order of
  their registration.
\<close>

fun consults_guard :: "command \<Rightarrow> bool" where
  "consults_guard (TeamSetStake i st uj) = True"
| "consults_guard (AdminTeamKick i) = True"
| "consults_guard AdminLockStakes = True"
| "consults_guard (AdminResolveRound a) = True"
| "consults_guard AdminRoundEnd = True"
| "consults_guard (AdminRoundUndo sn) = True"
| "consults_guard AdminRoundNext = True"
| "consults_guard AdminRoundPrev = True"
| "consults_guard AdminFinishCategory = True"
| "consults_guard (AdminElchConfirm t) = True"
| "consults_guard (AdminSetTeamLimit l) = True"
| "consults_guard AdminResetAll = True"
| "consults_guard c = False"

fun clears_entries :: "command \<Rightarrow> bool" where
  "clears_entries (AdminStartCategory c) = True"
| "clears_entries AdminRoundNext = True"
| "clears_entries AdminRoundPrev = True"
| "clears_entries AdminFinishCategory = True"
| "clears_entries c = False"

definition second_listener :: "command \<Rightarrow> game \<Rightarrow> game" where
  "second_listener c w =
     (if clears_entries c then w\<lparr>fuchsHistory := [], submissions := []\<rparr> else w)"

text \<open>One socket event at time \<open>now\<close> from the socket \<open>sock\<close>, with the action id of
  its payload. The three timed callbacks are no socket events; on them \<open>handle\<close> is
  \<open>step\<close>.\<close>

definition handle ::
    "int option \<Rightarrow> int \<Rightarrow> string \<Rightarrow> string option \<Rightarrow> command \<Rightarrow> guard \<times> game \<Rightarrow> guard \<times> game" where
  "handle env now sock actionId c gw =
     (let gw1 = (case c of
                   TeamElchBuzz i \<Rightarrow>
                     guarded now (Some (sock @ '':elchBuzz'')) (step env now c) gw
                 | _ \<Rightarrow>
                     if consults_guard c then guarded now actionId (step env now c) gw
                     else (fst gw, step env now c (snd gw)))
      in (fst gw1, second_listener c (snd gw1)))"

subsection \<open>Derived notions used in the statements\<close>

text \<open>The variable \<^verbatim>\<open>resolved\<close> of \<^verbatim>\<open>adminResolveRound\<close>: whether the call settles
  the round.\<close>

definition resolved_flag :: "game \<Rightarrow> resolve_args \<Rightarrow> bool" where
  "resolved_flag w a = fst (snd (settle w a))"

text \<open>What one iteration of the loop of \<^verbatim>\<open>adminLockStakes\<close> does to a team.\<close>

definition debited :: "stake_entry \<Rightarrow> team \<Rightarrow> team" where
  "debited e t = t\<lparr>coins := max 0 (coins t - stake e),
                   quizJoker := (if useJoker e then 0 else quizJoker t)\<rparr>"

text \<open>
  The ledger invariant: no team of the Map has a negative balance, the pot and the carry
  are not negative, and no stake entry is negative. The pot, the carry and the stakes
  are part of it because the coins a resolution adds are computed from them.
\<close>

definition coins_ok :: "(string \<times> team) list \<Rightarrow> bool" where
  "coins_ok ts = (\<forall>k t. map_of ts k = Some t \<longrightarrow> 0 \<le> coins t)"

definition stakes_ok :: "(string \<times> stake_entry) list \<Rightarrow> bool" where
  "stakes_ok ss = (\<forall>e \<in> set ss. 0 \<le> stake (snd e))"

definition ledger_ok :: "game \<Rightarrow> bool" where
  "ledger_ok w =
     ((\<forall>k t. map_of (teams w) k = Some t \<longrightarrow> 0 \<le> coins t)
      \<and> 0 \<le> categoryPot w \<and> 0 \<le> carryRound w
      \<and> (\<forall>e \<in> set (stakes w). 0 \<le> stake (snd e)))"

text \<open>The commands that do not hand a negative balance to \<^verbatim>\<open>adminTeamUpdate\<close>.\<close>

fun patch_nonneg :: "command \<Rightarrow> bool" where
  "patch_nonneg (AdminTeamUpdate i p) = (case p_coins p of None \<Rightarrow> True | Some v \<Rightarrow> 0 \<le> v)"
| "patch_nonneg c = True"

section \<open>Scenarios\<close>

text \<open>Two teams as \<^verbatim>\<open>teamJoin\<close> creates them at time 0, without a name or an avatar
  in the payload.\<close>

definition teamA :: team where
  "teamA = \<lparr> team_id = ''A'', team_name = ''Team 1'', avatar = ''/avatars/seekuh.png'',
     coins = 24, quizJoker = 1, joinedAt = 0 \<rparr>"

definition teamB :: team where
  "teamB = \<lparr> team_id = ''B'', team_name = ''Team 2'', avatar = ''/avatars/waschbaer.png'',
     coins = 24, quizJoker = 1, joinedAt = 0 \<rparr>"

definition args_A :: resolve_args where
  "args_A = \<lparr>winnerId = WId ''A'', winnerIds = None\<rparr>"

definition args_tie :: resolve_args where
  "args_tie = \<lparr>winnerId = WUndefined, winnerIds = Some [Some ''A'', Some ''B'']\<rparr>"

text \<open>Three teams join and stake 9 each on Hase (pot 30); the first round is resolved
  with no winner, which carries its payout of 10, and the admin moves to the second
  round.\<close>

definition teamC :: team where
  "teamC = \<lparr> team_id = ''C'', team_name = ''Team 3'', avatar = ''/avatars/roter_panda.png'',
     coins = 24, quizJoker = 1, joinedAt = 0 \<rparr>"

definition args_none :: resolve_args where
  "args_none = \<lparr>winnerId = WNull, winnerIds = None\<rparr>"

definition args_tie3 :: resolve_args where
  "args_tie3 = \<lparr>winnerId = WUndefined, winnerIds = Some [Some ''A'', Some ''B'', Some ''C'']\<rparr>"

definition game_three :: game where
  "game_three =
     adminLockStakes
       (teamSetStake ''C'' 9 False (teamSetStake ''B'' 9 False (teamSetStake ''A'' 9 False
         (adminStartCategory (Some ''Hase'')
           (teamJoin 0 ''C'' None None
             (teamJoin 0 ''B'' None None (teamJoin 0 ''A'' None None initial_game)))))))"

definition game_carry :: game where
  "game_carry = adminRoundNext (adminResolveRound 5 args_none game_three)"

text \<open>A category in its first round with a pot of 30 and 5 coins carried.\<close>

definition game_single :: game where
  "game_single = initial_game\<lparr> phase := CATEGORY, currentCategory := Some ''Hase'',
     categoryPot := 30, carryRound := 5, teams := [(''A'', teamA)] \<rparr>"

definition game_tie :: game where
  "game_tie = initial_game\<lparr> phase := CATEGORY, currentCategory := Some ''Hase'',
     categoryPot := 30, carryRound := 5, teams := [(''A'', teamA), (''B'', teamB)] \<rparr>"

text \<open>A team joins, a category is started with a payload that names none, and the
  stakes are locked: phase \<^verbatim>\<open>CATEGORY\<close> without a current category.\<close>

definition game_nokey :: game where
  "game_nokey =
     adminLockStakes (adminStartCategory None (teamJoin 0 ''A'' None None initial_game))"

text \<open>Two teams join, the category Hase starts, A stakes 3, B stakes 6 with the joker,
  the stakes are locked, and A wins the first round.\<close>

definition game_staked :: game where
  "game_staked =
     teamSetStake ''B'' 6 True (teamSetStake ''A'' 3 False
       (adminStartCategory (Some ''Hase'')
         (teamJoin 0 ''B'' None None (teamJoin 0 ''A'' None None initial_game))))"

definition game_locked :: game where
  "game_locked = adminLockStakes game_staked"

definition game_resolved :: game where
  "game_resolved = adminResolveRound 7 args_A game_locked"

text \<open>A stake phase with a team limit of 2, and team B down to 2 coins.\<close>

definition game_stake2 :: game where
  "game_stake2 = initial_game\<lparr> phase := STAKE, currentCategory := Some ''Hase'',
     teamLimit := 2, teams := [(''A'', teamA), (''B'', teamB\<lparr>coins := 2\<rparr>)] \<rparr>"

text \<open>The Elch category after the stake lock (the first label is drawn at the start);
  then team A buzzes at 1000, is kicked, and the admin releases the lock.\<close>

definition game_elch :: game where
  "game_elch =
     adminLockStakes (adminStartCategory (Some cat_Elch)
       (teamJoin 0 ''B'' None None (teamJoin 0 ''A'' None None initial_game)))"

definition game_elch_stale :: game where
  "game_elch_stale =
     adminElchSetLock False (adminTeamKick (Some ''A'')
       (teamSubmit_Elch_buzz None 1000 ''A'' game_elch))"

definition patch_negative :: team_patch where
  "patch_negative = \<lparr>p_coins = Some (- 5), p_quizJoker = None, p_name = None, p_avatar = None\<rparr>"

section \<open>Evaluation of the scenarios\<close>

lemmas resolve_defs = adminResolveRound_def settle_def uniqueIds_def uniq_def has_team_def
  singleId_of_def creditWinner_def payout_of_def totalPot_of_def get0_def
  isRoundResolved_def currentRoundKey_def roundKeyFor_def markRoundResolved_def
  ROUNDS_PER_CATEGORY_def Let_def

lemma teams_joined:
  "teamJoin 0 ''B'' None None (teamJoin 0 ''A'' None None initial_game)
     = initial_game\<lparr>teams := [(''A'', teamA), (''B'', teamB)]\<rparr>"
  by (simp add: teamJoin_def initial_game_def Let_def truthy_str_def AVATAR_POOL_def
      teamA_def teamB_def digit_string_def)

lemma game_nokey_eval:
  "game_nokey = initial_game\<lparr>phase := CATEGORY, categoryPot := 3, teams := [(''A'', teamA)]\<rparr>"
  by (simp add: game_nokey_def adminLockStakes_def adminStartCategory_def teamJoin_def
      initial_game_def Let_def truthy_str_def AVATAR_POOL_def sumEinsatz_def jokerExtra_def
      teamA_def digit_string_def normalizeCategory_def)

lemma game_staked_eval:
  "game_staked = initial_game\<lparr> phase := STAKE, currentCategory := Some ''Hase'',
      stakes := [(''A'', \<lparr>stake = 3, useJoker = False\<rparr>), (''B'', \<lparr>stake = 6, useJoker = True\<rparr>)],
      teams := [(''A'', teamA), (''B'', teamB)] \<rparr>"
  by (simp add: game_staked_def teams_joined)
     (simp add: adminStartCategory_def teamSetStake_def initial_game_def Let_def
      normalizeCategory_def truthy_str_def cat_Elch_def cat_Baer_mojibake_def dynamicValid_def
      teamA_def teamB_def)

lemma game_locked_eval:
  "game_locked = initial_game\<lparr> phase := CATEGORY, currentCategory := Some ''Hase'',
      stakes := [(''A'', \<lparr>stake = 3, useJoker = False\<rparr>), (''B'', \<lparr>stake = 6, useJoker = True\<rparr>)],
      categoryPot := 18,
      teams := [(''A'', teamA\<lparr>coins := 21\<rparr>), (''B'', teamB\<lparr>coins := 18, quizJoker := 0\<rparr>)] \<rparr>"
  by (simp add: game_locked_def game_staked_eval)
     (simp add: adminLockStakes_def initial_game_def sumEinsatz_def jokerExtra_def
      debitStake_def Let_def teamA_def teamB_def)

lemma game_three_eval:
  "game_three = initial_game\<lparr> phase := CATEGORY, currentCategory := Some ''Hase'',
      stakes := [(''A'', \<lparr>stake = 9, useJoker = False\<rparr>), (''B'', \<lparr>stake = 9, useJoker = False\<rparr>),
                 (''C'', \<lparr>stake = 9, useJoker = False\<rparr>)],
      categoryPot := 30,
      teams := [(''A'', teamA\<lparr>coins := 15\<rparr>), (''B'', teamB\<lparr>coins := 15\<rparr>),
                (''C'', teamC\<lparr>coins := 15\<rparr>)] \<rparr>"
  by (simp add: game_three_def teams_joined)
     (simp add: teamJoin_def adminStartCategory_def teamSetStake_def adminLockStakes_def
      initial_game_def Let_def normalizeCategory_def truthy_str_def cat_Elch_def
      cat_Baer_mojibake_def dynamicValid_def AVATAR_POOL_def digit_string_def
      sumEinsatz_def jokerExtra_def debitStake_def teamA_def teamB_def teamC_def)

lemma game_carry_fields:
  "phase game_carry = CATEGORY" "currentCategory game_carry = Some ''Hase''"
  "roundIndex game_carry = 1" "categoryPot game_carry = 30" "carryRound game_carry = 10"
  "\<not> isRoundResolved game_carry"
  "teams game_carry = [(''A'', teamA\<lparr>coins := 15\<rparr>), (''B'', teamB\<lparr>coins := 15\<rparr>),
                (''C'', teamC\<lparr>coins := 15\<rparr>)]"
  by (simp_all add: game_carry_def game_three_eval)
     (simp_all add: adminRoundNext_def elch_rearm_def resolve_defs initial_game_def args_none_def
      cat_Elch_def)

lemma game_single_fields:
  "phase game_single = CATEGORY" "categoryPot game_single = 30" "carryRound game_single = 5"
  "map_of (teams game_single) ''A'' = Some teamA" "\<not> isRoundResolved game_single"
  "uniqueIds game_single args_A = []"
  by (simp_all add: resolve_defs game_single_def initial_game_def args_A_def)

section \<open>Settlement of a round\<close>

lemma markRoundResolved_fields [simp]:
  "teams (markRoundResolved f w) = teams w"
  "carryRound (markRoundResolved f w) = carryRound w"
  "categoryPot (markRoundResolved f w) = categoryPot w"
  "roundWins (markRoundResolved f w) = roundWins w"
  "categoryEarnings (markRoundResolved f w) = categoryEarnings w"
  "phase (markRoundResolved f w) = phase w"
  "currentCategory (markRoundResolved f w) = currentCategory w"
  "roundIndex (markRoundResolved f w) = roundIndex w"
  "stakes (markRoundResolved f w) = stakes w"
  "elch (markRoundResolved f w) = elch w"
  by (simp_all add: markRoundResolved_def split: option.splits)

lemma adminResolveRound_teams:
  "teams (adminResolveRound now a w) =
     (if phase w = CATEGORY \<and> \<not> isRoundResolved w then teams (fst (settle w a)) else teams w)"
  by (simp add: adminResolveRound_def Let_def split: prod.splits)

lemma adminResolveRound_carryRound:
  "carryRound (adminResolveRound now a w) =
     (if phase w = CATEGORY \<and> \<not> isRoundResolved w then carryRound (fst (settle w a))
      else carryRound w)"
  by (simp add: adminResolveRound_def Let_def split: prod.splits)

lemma teams_creditWinner:
  "map_of (teams (creditWinner g i w)) j =
     (if j = i then map_option (\<lambda>t. t\<lparr>coins := coins t + g\<rparr>) (map_of (teams w) i)
      else map_of (teams w) j)"
  by (auto simp: creditWinner_def update_conv' split: option.splits)

lemma creditWinner_fields [simp]:
  "carryRound (creditWinner g i w) = carryRound w"
  "roundIndex (creditWinner g i w) = roundIndex w"
  "categoryPot (creditWinner g i w) = categoryPot w"
  "phase (creditWinner g i w) = phase w"
  "currentCategory (creditWinner g i w) = currentCategory w"
  "resolvedRounds (creditWinner g i w) = resolvedRounds w"
  by (simp_all add: creditWinner_def split: option.splits)

lemma fold_creditWinner_fields [simp]:
  "carryRound (fold (creditWinner g) ids w) = carryRound w"
  "roundIndex (fold (creditWinner g) ids w) = roundIndex w"
  "categoryPot (fold (creditWinner g) ids w) = categoryPot w"
  "phase (fold (creditWinner g) ids w) = phase w"
  "currentCategory (fold (creditWinner g) ids w) = currentCategory w"
  "resolvedRounds (fold (creditWinner g) ids w) = resolvedRounds w"
  by (induction ids arbitrary: w; simp)+

lemma teams_fold_creditWinner:
  "distinct ids \<Longrightarrow>
   map_of (teams (fold (creditWinner g) ids w)) j =
     (if j \<in> set ids then map_option (\<lambda>t. t\<lparr>coins := coins t + g\<rparr>) (map_of (teams w) j)
      else map_of (teams w) j)"
proof (induction ids arbitrary: w)
  case Nil
  then show ?case by simp
next
  case (Cons i ids)
  then show ?case by (auto simp: teams_creditWinner)
qed

lemma distinct_uniqueIds: "distinct (uniqueIds w a)"
  by (simp add: uniqueIds_def uniq_def Let_def)

lemma uniqueIds_registered: "i \<in> set (uniqueIds w a) \<Longrightarrow> map_of (teams w) i \<noteq> None"
  by (simp add: uniqueIds_def Let_def has_team_def)

lemma settle_tie:
  assumes "length (uniqueIds w a) > 1"
  shows "fst (settle w a) =
     (let n = int (length (uniqueIds w a));
          share = totalPot_of w div n;
          w1 = fold (creditWinner share) (uniqueIds w a) w
      in if roundIndex w < 2 then w1\<lparr>carryRound := carryRound w + (totalPot_of w - share * n)\<rparr>
         else w1)"
  using assms by (simp add: settle_def Let_def totalPot_of_def ROUNDS_PER_CATEGORY_def)

lemma settle_single:
  assumes "length (uniqueIds w a) \<le> 1"
    and "singleId_of (uniqueIds w a) (winnerId a) = Some s"
    and "s \<noteq> []" and "map_of (teams w) s = Some t"
  shows "fst (settle w a) = (creditWinner (totalPot_of w) s w)\<lparr>carryRound := 0\<rparr>"
  using assms by (simp add: settle_def Let_def has_team_def totalPot_of_def)

text \<open>
  What a tie does, for every state: each of the \<open>n > 1\<close> distinct registered winners
  gains \<open>share = totalPot div n\<close>; when rounds remain, the remainder
  \<open>totalPot - share * n\<close> is added to a carry that still holds the amount that was
  just paid out as part of \<open>totalPot\<close>; in the final round the carry stays as it was.
\<close>

lemma tie_resolution:
  assumes "phase w = CATEGORY" and "\<not> isRoundResolved w" and "length (uniqueIds w a) > 1"
  shows "\<forall>i \<in> set (uniqueIds w a). \<exists>t. map_of (teams w) i = Some t \<and>
            map_of (teams (adminResolveRound now a w)) i =
              Some (t\<lparr>coins := coins t + totalPot_of w div int (length (uniqueIds w a))\<rparr>)"
    and "carryRound (adminResolveRound now a w) =
           (if roundIndex w < 2
            then carryRound w + (totalPot_of w
                   - (totalPot_of w div int (length (uniqueIds w a))) * int (length (uniqueIds w a)))
            else carryRound w)"
proof -
  show "\<forall>i \<in> set (uniqueIds w a). \<exists>t. map_of (teams w) i = Some t \<and>
            map_of (teams (adminResolveRound now a w)) i =
              Some (t\<lparr>coins := coins t + totalPot_of w div int (length (uniqueIds w a))\<rparr>)"
  proof
    fix i assume i: "i \<in> set (uniqueIds w a)"
    then obtain t where t: "map_of (teams w) i = Some t"
      using uniqueIds_registered by fastforce
    show "\<exists>t. map_of (teams w) i = Some t \<and>
            map_of (teams (adminResolveRound now a w)) i =
              Some (t\<lparr>coins := coins t + totalPot_of w div int (length (uniqueIds w a))\<rparr>)"
      using assms i t
      by (simp add: adminResolveRound_teams settle_tie Let_def
          teams_fold_creditWinner [OF distinct_uniqueIds])
  qed
  show "carryRound (adminResolveRound now a w) =
           (if roundIndex w < 2
            then carryRound w + (totalPot_of w
                   - (totalPot_of w div int (length (uniqueIds w a))) * int (length (uniqueIds w a)))
            else carryRound w)"
    using assms by (simp add: adminResolveRound_carryRound settle_tie Let_def)
qed

text \<open>
  C1. A tie pays every winner \<open>share = floor(totalPot / n)\<close>, and with rounds
  remaining the carry afterwards is the remainder \<open>totalPot - share * n\<close>. The code
  pays the shares but leaves the old carry in place and adds the remainder to it: in
  the second round of a category with a pot of 30 and a carry of 10, \<open>totalPot\<close> is
  20; a tie of three pays 6 to each, the remainder is 2, and the carry afterwards is 12,
  the carry of 10 that was just paid out plus the remainder.
\<close>

theorem tie_keeps_paid_carry:
  "roundIndex game_carry = 1 \<and> categoryPot game_carry = 30 \<and> carryRound game_carry = 10
   \<and> totalPot_of game_carry = 20
   \<and> totalPot_of game_carry div 3 = 6
   \<and> totalPot_of game_carry - (totalPot_of game_carry div 3) * 3 = 2
   \<and> map_option coins (map_of (teams game_carry) ''A'') = Some 15
   \<and> map_option coins (map_of (teams (adminResolveRound 7 args_tie3 game_carry)) ''A'') = Some 21
   \<and> map_option coins (map_of (teams (adminResolveRound 7 args_tie3 game_carry)) ''B'') = Some 21
   \<and> map_option coins (map_of (teams (adminResolveRound 7 args_tie3 game_carry)) ''C'') = Some 21
   \<and> carryRound (adminResolveRound 7 args_tie3 game_carry) = 12"
  apply (simp add: game_carry_fields totalPot_of_def payout_of_def ROUNDS_PER_CATEGORY_def)
  apply (simp add: adminResolveRound_teams adminResolveRound_carryRound game_carry_fields)
  apply (simp add: settle_def uniqueIds_def uniq_def has_team_def creditWinner_def
      payout_of_def get0_def ROUNDS_PER_CATEGORY_def Let_def game_carry_fields args_tie3_def
      teamA_def teamB_def teamC_def)
  done


subsection \<open>Resolving twice\<close>

lemma resolved_noop: "isRoundResolved w \<Longrightarrow> adminResolveRound now a w = w"
  by (simp add: adminResolveRound_def)

lemma settle_key [simp]: "currentRoundKey (fst (settle w a)) = currentRoundKey w"
  by (simp add: settle_def Let_def currentRoundKey_def split: option.splits)

lemma resolve_marks:
  assumes "phase w = CATEGORY" and "currentRoundKey w = Some k" and "resolved_flag w a"
  shows "isRoundResolved (adminResolveRound now a w)"
proof (cases "isRoundResolved w")
  case True
  then show ?thesis by (simp add: resolved_noop)
next
  case False
  obtain w1 r wi wis ts where s: "settle w a = (w1, r, wi, wis, ts)"
    by (cases "settle w a") auto
  then have r: "r" using assms(3) by (simp add: resolved_flag_def)
  have k: "currentRoundKey w1 = Some k"
    using settle_key [of w a] s assms(2) by simp
  show ?thesis
    using assms(1) False s r k
    by (simp add: adminResolveRound_def Let_def isRoundResolved_def markRoundResolved_def
        currentRoundKey_def)
qed

text \<open>
  C2, as amended. In phase \<^verbatim>\<open>CATEGORY\<close> with a current category that gives a round
  key, after a call of \<^verbatim>\<open>adminResolveRound\<close> that settles the round, a second call
  with any arguments at any time returns the state unchanged as a whole (so the coins,
  \<^verbatim>\<open>carryRound\<close>, \<^verbatim>\<open>roundWins\<close>, \<^verbatim>\<open>categoryEarnings\<close> and \<^verbatim>\<open>pendingResult\<close> are
  unchanged); and outside phase \<^verbatim>\<open>CATEGORY\<close> a call changes nothing.
\<close>

theorem resolveRound_idempotent:
  "(phase w = CATEGORY \<and> currentRoundKey w \<noteq> None \<and> resolved_flag w a1 \<longrightarrow>
      adminResolveRound now2 a2 (adminResolveRound now1 a1 w) = adminResolveRound now1 a1 w)
   \<and> (phase w \<noteq> CATEGORY \<longrightarrow> adminResolveRound now a w = w)"
proof (intro conjI impI)
  assume h: "phase w = CATEGORY \<and> currentRoundKey w \<noteq> None \<and> resolved_flag w a1"
  then obtain k where k: "currentRoundKey w = Some k" by auto
  from h k have "isRoundResolved (adminResolveRound now1 a1 w)"
    by (intro resolve_marks) auto
  then show "adminResolveRound now2 a2 (adminResolveRound now1 a1 w) = adminResolveRound now1 a1 w"
    by (rule resolved_noop)
next
  assume "phase w \<noteq> CATEGORY"
  then show "adminResolveRound now a w = w" by (simp add: adminResolveRound_def)
qed

theorem resolveRound_idempotent_witness:
  "adminResolveRound 8 args_A (adminResolveRound 7 args_tie game_tie)
     = adminResolveRound 7 args_tie game_tie
   \<and> adminResolveRound 7 args_tie initial_game = initial_game"
proof -
  have "phase game_tie = CATEGORY \<and> currentRoundKey game_tie \<noteq> None
        \<and> resolved_flag game_tie args_tie"
    by (simp add: resolved_flag_def resolve_defs game_tie_def initial_game_def teamA_def
        teamB_def args_tie_def)
  moreover have "phase initial_game \<noteq> CATEGORY" by (simp add: initial_game_def)
  ultimately show ?thesis
    using resolveRound_idempotent [of game_tie args_tie 8 args_A 7]
      resolveRound_idempotent [of initial_game args_tie 8 args_A 7 7 args_tie]
    by simp
qed

text \<open>
  The claim as stated, for every state in phase \<^verbatim>\<open>CATEGORY\<close>, fails where there is no
  current category: \<^verbatim>\<open>roundKeyFor\<close> returns \<^verbatim>\<open>null\<close>, \<^verbatim>\<open>markRoundResolved\<close> returns
  at \<^verbatim>\<open>if (!key) return\<close>, and the same call pays again. The state is the one after a
  team joined, a category was started without a name, and the stakes were locked.
\<close>

theorem resolveRound_twice_counterexample:
  "phase game_nokey = CATEGORY
   \<and> resolved_flag game_nokey args_A
   \<and> map_option coins (map_of (teams (adminResolveRound 1 args_A game_nokey)) ''A'') = Some 25
   \<and> map_option coins
       (map_of (teams (adminResolveRound 2 args_A (adminResolveRound 1 args_A game_nokey))) ''A'')
       = Some 26"
  by (simp add: game_nokey_eval resolved_flag_def resolve_defs initial_game_def teamA_def
      args_A_def)

subsection \<open>A single winner\<close>

text \<open>
  C3, as amended. When \<^verbatim>\<open>adminResolveRound\<close> runs in phase \<^verbatim>\<open>CATEGORY\<close> on an
  unresolved round with at most one listed registered winner and the single winner \<open>s\<close>
  is a registered team, that team's coins grow by exactly
  \<open>floor(categoryPot / 3) + carryRound\<close>, every other team is unchanged, and
  \<^verbatim>\<open>carryRound\<close> is 0 afterwards; with a pot of 30 and a carry of 5 the team receives
  10 + 5 = 15 coins.
\<close>

theorem single_winner_payout:
  assumes "phase w = CATEGORY" and "\<not> isRoundResolved w"
    and "length (uniqueIds w a) \<le> 1"
    and "singleId_of (uniqueIds w a) (winnerId a) = Some s"
    and "s \<noteq> []" and "map_of (teams w) s = Some t"
  shows "map_of (teams (adminResolveRound now a w)) s
           = Some (t\<lparr>coins := coins t + (categoryPot w div 3 + carryRound w)\<rparr>)
       \<and> carryRound (adminResolveRound now a w) = 0
       \<and> (\<forall>j. j \<noteq> s \<longrightarrow> map_of (teams (adminResolveRound now a w)) j = map_of (teams w) j)
       \<and> (categoryPot w = 30 \<and> carryRound w = 5 \<longrightarrow>
           map_of (teams (adminResolveRound now a w)) s = Some (t\<lparr>coins := coins t + 15\<rparr>))"
  using assms settle_single [OF assms(3-6)]
  by (simp add: adminResolveRound_teams adminResolveRound_carryRound teams_creditWinner
      totalPot_of_def payout_of_def ROUNDS_PER_CATEGORY_def)

theorem single_winner_payout_witness:
  "map_of (teams (adminResolveRound 7 args_A game_single)) ''A'' = Some (teamA\<lparr>coins := 39\<rparr>)
   \<and> carryRound (adminResolveRound 7 args_A game_single) = 0"
proof -
  have s: "singleId_of (uniqueIds game_single args_A) (winnerId args_A) = Some ''A''"
    by (simp add: game_single_fields singleId_of_def) (simp add: args_A_def)
  have l: "length (uniqueIds game_single args_A) \<le> 1"
    by (simp add: game_single_fields)
  have n: "''A'' \<noteq> []" by simp
  from single_winner_payout [OF game_single_fields(1) game_single_fields(5) l s n
      game_single_fields(4), of 7]
  show ?thesis by (simp add: game_single_fields teamA_def)
qed

text \<open>The example of the claim, 15 + 5 = 20 coins from a pot of 30 and a carry of 5,
  is not what the code pays: the team receives 15.\<close>

theorem single_winner_example_counterexample:
  "categoryPot game_single = 30 \<and> carryRound game_single = 5
   \<and> map_of (teams game_single) ''A'' = Some teamA
   \<and> map_of (teams (adminResolveRound 7 args_A game_single)) ''A''
        = Some (teamA\<lparr>coins := coins teamA + 15\<rparr>)
   \<and> map_of (teams (adminResolveRound 7 args_A game_single)) ''A''
        \<noteq> Some (teamA\<lparr>coins := coins teamA + 20\<rparr>)"
  by (simp add: resolve_defs game_single_def initial_game_def teamA_def args_A_def)

section \<open>Locking the stakes\<close>

lemma fold_add: "fold (\<lambda>e a. a + f e) xs (a0::int) = a0 + sum_list (map f xs)"
  by (induction xs arbitrary: a0) simp_all

text \<open>The pot after a lock, for every stakes dictionary: the sum of the stakes, plus the
  sum of the stakes that carry a joker, plus 3.\<close>

lemma lockStakes_pot:
  "categoryPot (adminLockStakes w) =
     sum_list (map (\<lambda>e. stake (snd e)) (stakes w))
     + sum_list (map (\<lambda>e. stake (snd e)) (filter (\<lambda>e. useJoker (snd e)) (stakes w))) + 3"
proof -
  have "sum_list (map (\<lambda>e. if useJoker (snd e) then stake (snd e) else 0) xs)
      = sum_list (map (\<lambda>e. stake (snd e)) (filter (\<lambda>e. useJoker (snd e)) xs))"
    for xs :: "(string \<times> stake_entry) list"
    by (induction xs) simp_all
  then show ?thesis
    by (simp add: adminLockStakes_def sumEinsatz_def jokerExtra_def fold_add)
qed

lemma map_of_debitStake:
  "map_of (debitStake e ts) i =
     (if i = fst e then map_option (debited (snd e)) (map_of ts i) else map_of ts i)"
  by (cases "map_of ts (fst e)")
     (auto simp: debitStake_def debited_def Let_def update_conv')

lemma map_of_fold_debitStake:
  "distinct (map fst ss) \<Longrightarrow>
   map_of (fold debitStake ss ts) i =
     (case map_of ss i of None \<Rightarrow> map_of ts i
      | Some e \<Rightarrow> map_option (debited e) (map_of ts i))"
proof (induction ss arbitrary: ts)
  case Nil
  then show ?case by simp
next
  case (Cons e ss)
  have "map_of ss (fst e) = None"
    using Cons.prems by (cases e) (simp add: map_of_eq_None_iff)
  then show ?case
    using Cons by (cases e) (auto simp: map_of_debitStake split: option.splits)
qed

text \<open>The debit of a lock, for a stakes dictionary with one entry per key: a staking
  team loses its stake, floored at 0, and its joker count is 0 if it applied the joker;
  a team without a stake entry is unchanged.\<close>

lemma lockStakes_debit:
  assumes "distinct (map fst (stakes w))"
  shows "map_of (teams (adminLockStakes w)) i =
           (case map_of (stakes w) i of
              None \<Rightarrow> map_of (teams w) i
            | Some e \<Rightarrow> map_option (debited e) (map_of (teams w) i))"
  using assms by (simp add: adminLockStakes_def map_of_fold_debitStake)

text \<open>
  C4. Outside phase \<^verbatim>\<open>STAKE\<close>, locking the stakes is a no-op. The code of
  \<^verbatim>\<open>adminLockStakes\<close> has no check of the phase: in phase \<^verbatim>\<open>CATEGORY\<close>, after a
  lock, a second lock debits the stakes again (A from 21 to 18, B from 18 to 12), and
  in the lobby a lock moves the phase to \<^verbatim>\<open>CATEGORY\<close> and sets the pot to 3.
\<close>

theorem lockStakes_outside_STAKE_changes_state:
  "phase game_locked = CATEGORY
   \<and> map_option coins (map_of (teams game_locked) ''A'') = Some 21
   \<and> map_option coins (map_of (teams game_locked) ''B'') = Some 18
   \<and> map_option coins (map_of (teams (adminLockStakes game_locked)) ''A'') = Some 18
   \<and> map_option coins (map_of (teams (adminLockStakes game_locked)) ''B'') = Some 12
   \<and> phase initial_game = LOBBY
   \<and> phase (adminLockStakes initial_game) = CATEGORY
   \<and> categoryPot initial_game = 0
   \<and> categoryPot (adminLockStakes initial_game) = 3"
  by (simp add: game_locked_eval)
     (simp add: adminLockStakes_def initial_game_def sumEinsatz_def jokerExtra_def
      debitStake_def Let_def teamA_def teamB_def)

text \<open>Outside the five commands that assign it, no command of the command surface
  changes the pot.\<close>

lemma settle_pot [simp]: "categoryPot (fst (settle w a)) = categoryPot w"
  by (simp add: settle_def Let_def split: option.splits)

lemma adminResolveRound_pot [simp]: "categoryPot (adminResolveRound now a w) = categoryPot w"
proof (cases "settle w a")
  case (fields w1 r wi wis ts)
  then have "categoryPot w1 = categoryPot w" using settle_pot [of w a] by simp
  with fields show ?thesis by (simp add: adminResolveRound_def Let_def)
qed

lemma uncredit_pot [simp]: "categoryPot (fold (uncreditWinner l) ids v) = categoryPot v"
proof -
  have u: "categoryPot (uncreditWinner l i v) = categoryPot v" for i v
    by (simp add: uncreditWinner_def Let_def)
  show ?thesis by (induction ids arbitrary: v) (simp_all add: u)
qed

lemma pot_fixed:
  assumes "\<not> sets_pot c"
  shows "categoryPot (step env now c w) = categoryPot w"
proof (cases c)
  case (TeamJoin i n a)
  then show ?thesis by (simp add: teamJoin_def Let_def split: option.splits)
next
  case (TeamSetStake i st uj)
  then show ?thesis by (simp add: teamSetStake_def Let_def split: option.splits)
next
  case (TeamElchBuzz i)
  then show ?thesis by (simp add: teamSubmit_Elch_buzz_def Let_def)
next
  case (AdminTeamUpdate i p)
  then show ?thesis by (simp add: adminTeamUpdate_def Let_def split: option.splits)
next
  case (AdminTeamKick i)
  then show ?thesis by (simp add: adminTeamKick_def Let_def)
next
  case (AdminSetTeamLimit l)
  then show ?thesis by (simp add: adminSetTeamLimit_def Let_def)
next
  case (AdminResolveRound a)
  then show ?thesis by simp
next
  case AdminRoundEnd
  then show ?thesis by (simp add: adminRoundEnd_def split: option.splits)
next
  case (AdminRoundUndo sn)
  then show ?thesis by (simp add: adminRoundUndo_def Let_def split: option.splits)
next
  case AdminRoundNext
  then show ?thesis by (simp add: adminRoundNext_def elch_rearm_def Let_def)
next
  case AdminRoundPrev
  then show ?thesis by (simp add: adminRoundPrev_def elch_rearm_def Let_def)
next
  case (AdminTimerStart sec)
  then show ?thesis by (simp add: adminTimerStart_def Let_def)
next
  case AdminTimerStop
  then show ?thesis by (simp add: adminTimerStop_def Let_def)
next
  case AdminTimerReset
  then show ?thesis by (simp add: adminTimerReset_def)
next
  case AdminTimerResume
  then show ?thesis by (simp add: adminTimerResume_def Let_def)
next
  case AdminElchDraw
  then show ?thesis by (simp add: adminElchDraw_def Let_def)
next
  case (AdminElchSetLock l)
  then show ?thesis by (simp add: adminElchSetLock_def Let_def)
next
  case AdminElchClearBuzz
  then show ?thesis by (simp add: adminElchClearBuzz_def Let_def)
next
  case (AdminElchConfirm t)
  then show ?thesis by (simp add: adminElchConfirm_def Let_def)
next
  case AdminElchUnlock
  then show ?thesis by (simp add: adminElchUnlock_def)
next
  case (AdminRaceSet m)
  then show ?thesis by (simp add: adminRaceSet_def split: option.splits)
next
  case TimerTick
  then show ?thesis by (simp add: timerTick_def)
next
  case ElchAutoUnlockTick
  then show ?thesis by (simp add: elchAutoUnlockTick_def)
next
  case RaceAutoPost
  then show ?thesis by (simp add: raceAutoPost_def)
qed (use assms in simp_all)

text \<open>
  C5. The pot is computed at the lock as the sum of the stakes plus the stakes with a
  joker plus 3, and then stays fixed until the next start or finish of a category, return
  to the lobby or reset. The formula and the debits hold (\<open>lockStakes_pot\<close>,
  \<open>lockStakes_debit\<close>), but the pot does not stay fixed: \<^verbatim>\<open>adminLockStakes\<close> runs in
  any phase and computes the pot again. After the lock the pot is 18; team B is kicked,
  which deletes its stake entry and leaves the pot at 18; a second lock sets the pot to
  3 + 3 = 6 while the category is still running.
\<close>

theorem categoryPot_changes_on_second_lock:
  "categoryPot game_locked = 18
   \<and> phase (adminTeamKick (Some ''B'') game_locked) = CATEGORY
   \<and> currentCategory (adminTeamKick (Some ''B'') game_locked) = Some ''Hase''
   \<and> categoryPot (adminTeamKick (Some ''B'') game_locked) = 18
   \<and> categoryPot (adminLockStakes (adminTeamKick (Some ''B'') game_locked)) = 6"
  by (simp add: game_locked_eval)
     (simp add: adminLockStakes_def adminTeamKick_def initial_game_def sumEinsatz_def
      jokerExtra_def has_team_def truthy_str_def debitStake_def Let_def teamA_def teamB_def)

section \<open>Coin balances\<close>

text \<open>Every command keeps the ledger invariant, provided \<^verbatim>\<open>adminTeamUpdate\<close> is not
  given a negative balance; so from the initial state, along such commands, no balance
  is ever negative.\<close>

lemma ledger_ok_alt:
  "ledger_ok w \<longleftrightarrow> coins_ok (teams w) \<and> 0 \<le> categoryPot w \<and> 0 \<le> carryRound w
      \<and> stakes_ok (stakes w)"
  by (simp add: ledger_ok_def coins_ok_def stakes_ok_def)

lemma coins_ok_update: "coins_ok ts \<Longrightarrow> 0 \<le> coins t \<Longrightarrow> coins_ok (AList.update k t ts)"
  by (simp add: coins_ok_def update_conv')

lemma coins_ok_delete: "coins_ok ts \<Longrightarrow> coins_ok (AList.delete k ts)"
  by (simp add: coins_ok_def delete_conv')

lemma coins_ok_lookup: "coins_ok ts \<Longrightarrow> map_of ts k = Some t \<Longrightarrow> 0 \<le> coins t"
  unfolding coins_ok_def by blast

lemma stakes_ok_update:
  "stakes_ok ss \<Longrightarrow> 0 \<le> stake e \<Longrightarrow> stakes_ok (AList.update k e ss)"
  unfolding stakes_ok_def by (induction ss) auto

lemma stakes_ok_delete: "stakes_ok ss \<Longrightarrow> stakes_ok (AList.delete k ss)"
  unfolding stakes_ok_def by (simp add: AList.delete_eq)

lemma coins_ok_debit: "coins_ok ts \<Longrightarrow> coins_ok (fold debitStake ss ts)"
proof (induction ss arbitrary: ts)
  case Nil
  then show ?case by simp
next
  case (Cons e ss)
  have "coins_ok (debitStake e ts)"
  proof (cases "map_of ts (fst e)")
    case None
    then show ?thesis using Cons.prems by (simp add: debitStake_def)
  next
    case (Some t)
    then show ?thesis using Cons.prems
      by (simp add: debitStake_def Let_def coins_ok_update)
  qed
  then show ?case using Cons.IH by simp
qed

lemma coins_ok_restore: "coins_ok ts \<Longrightarrow> coins_ok (fold restoreCoin cm ts)"
proof (induction cm arbitrary: ts)
  case Nil
  then show ?case by simp
next
  case (Cons e cm)
  have "coins_ok (restoreCoin e ts)"
    using Cons.prems
    by (cases "snd e"; cases "map_of ts (fst e)") (simp_all add: restoreCoin_def coins_ok_update)
  then show ?case using Cons.IH by simp
qed

lemma coins_ok_credit:
  assumes "coins_ok (teams v)" and "0 \<le> g"
  shows "coins_ok (teams (creditWinner g i v))"
proof (cases "map_of (teams v) i")
  case None
  then show ?thesis using assms by (simp add: creditWinner_def)
next
  case (Some t)
  have "0 \<le> coins t" using assms(1) Some by (rule coins_ok_lookup)
  then show ?thesis using assms Some by (simp add: creditWinner_def coins_ok_update)
qed

lemma coins_ok_fold_credit:
  "coins_ok (teams v) \<Longrightarrow> 0 \<le> g \<Longrightarrow> coins_ok (teams (fold (creditWinner g) ids v))"
  by (induction ids arbitrary: v) (simp_all add: coins_ok_credit)

lemma stakes_creditWinner [simp]: "stakes (creditWinner g i v) = stakes v"
  by (simp add: creditWinner_def split: option.splits)

lemma stakes_fold_creditWinner [simp]: "stakes (fold (creditWinner g) ids v) = stakes v"
  by (induction ids arbitrary: v) simp_all

lemma rem_nonneg: "0 < n \<Longrightarrow> 0 \<le> (x::int) - x div n * n"
  by (simp add: minus_div_mult_eq_mod)

lemma ledger_ok_settle:
  assumes "ledger_ok w"
  shows "ledger_ok (fst (settle w a))"
proof -
  have cp: "0 \<le> categoryPot w" and c: "0 \<le> carryRound w" and t: "coins_ok (teams w)"
    and s: "stakes_ok (stakes w)"
    using assms by (simp_all add: ledger_ok_alt)
  have p: "0 \<le> payout_of w"
    using cp by (simp add: payout_of_def ROUNDS_PER_CATEGORY_def pos_imp_zdiv_nonneg_iff)
  show ?thesis
  proof (cases "length (uniqueIds w a) > 1")
    case True
    let ?n = "int (length (uniqueIds w a))"
    have n: "0 < ?n" using True by (cases "uniqueIds w a") simp_all
    have sh: "0 \<le> (payout_of w + carryRound w) div ?n"
      using p c n by (simp add: pos_imp_zdiv_nonneg_iff)
    have r: "0 \<le> (payout_of w + carryRound w) - (payout_of w + carryRound w) div ?n * ?n"
      using n by (rule rem_nonneg)
    have "fst (settle w a) =
       (let w1 = fold (creditWinner ((payout_of w + carryRound w) div ?n)) (uniqueIds w a) w
        in if roundIndex w < 2
           then w1\<lparr>carryRound := carryRound w
                  + ((payout_of w + carryRound w) - (payout_of w + carryRound w) div ?n * ?n)\<rparr>
           else w1)"
      using True by (simp add: settle_tie totalPot_of_def Let_def)
    then show ?thesis
      using t s cp c sh r by (simp add: Let_def ledger_ok_alt coins_ok_fold_credit)
  next
    case False
    have tp: "0 \<le> payout_of w + carryRound w" using p c by simp
    have 1: "ledger_ok ((creditWinner (payout_of w + carryRound w) i w)\<lparr>carryRound := 0\<rparr>)" for i
      using t s cp tp by (simp add: ledger_ok_alt coins_ok_credit)
    have 2: "ledger_ok (w\<lparr>carryRound := carryRound w + payout_of w\<rparr>)"
      using t s cp p c by (simp add: ledger_ok_alt)
    show ?thesis
      using False 1 2 assms
      by (simp add: settle_def Let_def split: option.splits)
  qed
qed

lemma ledger_ok_markRoundResolved [simp]: "ledger_ok (markRoundResolved f w) = ledger_ok w"
  by (simp add: ledger_ok_def)

lemma ledger_ok_resolve:
  assumes "ledger_ok w"
  shows "ledger_ok (adminResolveRound now a w)"
proof (cases "settle w a")
  case (fields w1 r wi wis ts)
  then have "ledger_ok w1" using ledger_ok_settle [OF assms, of a] by simp
  with fields assms show ?thesis
    by (simp add: adminResolveRound_def Let_def) (simp add: ledger_ok_def)
qed

lemma uncredit_fields [simp]:
  "teams (fold (uncreditWinner l) ids v) = teams v"
  "carryRound (fold (uncreditWinner l) ids v) = carryRound v"
  "stakes (fold (uncreditWinner l) ids v) = stakes v"
proof -
  have u: "teams (uncreditWinner l i v) = teams v" "carryRound (uncreditWinner l i v) = carryRound v"
    "stakes (uncreditWinner l i v) = stakes v" for i v
    by (simp_all add: uncreditWinner_def Let_def)
  show "teams (fold (uncreditWinner l) ids v) = teams v"
    by (induction ids arbitrary: v) (simp_all add: u)
  show "carryRound (fold (uncreditWinner l) ids v) = carryRound v"
    by (induction ids arbitrary: v) (simp_all add: u)
  show "stakes (fold (uncreditWinner l) ids v) = stakes v"
    by (induction ids arbitrary: v) (simp_all add: u)
qed

lemma sum_nonneg_fold:
  "(\<forall>e \<in> set ss. 0 \<le> f e) \<Longrightarrow> 0 \<le> a0 \<Longrightarrow> 0 \<le> fold (\<lambda>e a. a + f e) ss (a0::int)"
  by (induction ss arbitrary: a0) simp_all

lemma ledger_ok_lock: "ledger_ok w \<Longrightarrow> ledger_ok (adminLockStakes w)"
proof -
  assume a: "ledger_ok w"
  then have s: "\<forall>e \<in> set (stakes w). 0 \<le> stake (snd e)" by (simp add: ledger_ok_def)
  have 1: "0 \<le> sumEinsatz (stakes w)"
    unfolding sumEinsatz_def using s by (intro sum_nonneg_fold) simp_all
  have 2: "0 \<le> jokerExtra (stakes w)"
    unfolding jokerExtra_def using s by (intro sum_nonneg_fold) simp_all
  show ?thesis using a 1 2
    by (simp add: adminLockStakes_def ledger_ok_alt coins_ok_debit)
qed

lemma ledger_ok_teamJoin:
  assumes "ledger_ok w"
  shows "ledger_ok (teamJoin now i n a w)"
proof -
  have t: "coins_ok (teams w)" using assms by (simp add: ledger_ok_alt)
  have f: "categoryPot (teamJoin now i n a w) = categoryPot w"
    "carryRound (teamJoin now i n a w) = carryRound w"
    "stakes (teamJoin now i n a w) = stakes w"
    by (simp_all add: teamJoin_def Let_def split: option.splits)
  have "coins_ok (teams (teamJoin now i n a w))"
  proof (cases "map_of (teams w) i")
    case None
    then show ?thesis using t by (simp add: teamJoin_def Let_def coins_ok_update)
  next
    case (Some t0)
    have "0 \<le> coins t0" using t Some by (rule coins_ok_lookup)
    then show ?thesis using t Some by (simp add: teamJoin_def Let_def coins_ok_update)
  qed
  then show ?thesis using assms f by (simp add: ledger_ok_alt)
qed

lemma ledger_ok_adminTeamUpdate:
  assumes "ledger_ok w" and "patch_nonneg (AdminTeamUpdate i p)"
  shows "ledger_ok (adminTeamUpdate i p w)"
proof (cases "map_of (teams w) i")
  case None
  then show ?thesis using assms(1) by (simp add: adminTeamUpdate_def)
next
  case (Some t)
  have t: "coins_ok (teams w)" using assms(1) by (simp add: ledger_ok_alt)
  have c: "0 \<le> coins t" using t Some by (rule coins_ok_lookup)
  let ?t1 = "case p_coins p of Some c \<Rightarrow> t\<lparr>coins := c\<rparr> | None \<Rightarrow> t"
  let ?t2 = "case p_quizJoker p of Some q \<Rightarrow> ?t1\<lparr>quizJoker := q\<rparr> | None \<Rightarrow> ?t1"
  let ?t3 = "case p_name p of Some n \<Rightarrow> ?t2\<lparr>team_name := n\<rparr> | None \<Rightarrow> ?t2"
  let ?t4 = "case p_avatar p of Some a \<Rightarrow> ?t3\<lparr>avatar := a\<rparr> | None \<Rightarrow> ?t3"
  have 1: "0 \<le> coins ?t1" using c assms(2) by (simp split: option.splits)
  have 2: "coins ?t4 = coins ?t1" by (simp split: option.splits)
  have e: "adminTeamUpdate i p w = w\<lparr>teams := AList.update i ?t4 (teams w)\<rparr>"
    using Some by (simp add: adminTeamUpdate_def Let_def)
  have "coins_ok (AList.update i ?t4 (teams w))"
    using t 1 2 by (intro coins_ok_update) simp_all
  then show ?thesis using assms(1) unfolding e by (simp add: ledger_ok_alt)
qed

lemma ledger_ok_teamSetStake:
  assumes "ledger_ok w"
  shows "ledger_ok (teamSetStake i st uj w)"
proof (cases "phase w = STAKE")
  case False
  then show ?thesis using assms by (simp add: teamSetStake_def)
next
  case True
  show ?thesis
  proof (cases "map_of (teams w) i")
    case None
    then show ?thesis using assms by (simp add: teamSetStake_def)
  next
    case (Some t)
    let ?s0 = "if st \<in> set (dynamicValid w) then st else 0"
    let ?s = "if coins t < 3 \<and> ?s0 > 0 then 0 else ?s0"
    have s0: "0 \<le> ?s0" by (auto simp: dynamicValid_def split: if_splits)
    then have s: "0 \<le> ?s" by simp
    have e: "teamSetStake i st uj w =
        w\<lparr>stakes := AList.update i \<lparr>stake = ?s, useJoker = (uj \<and> quizJoker t > 0 \<and> ?s > 0)\<rparr>
                      (stakes w)\<rparr>"
      using True Some by (simp add: teamSetStake_def Let_def)
    have "stakes_ok (AList.update i \<lparr>stake = ?s, useJoker = (uj \<and> quizJoker t > 0 \<and> ?s > 0)\<rparr>
                      (stakes w))"
      using assms s by (intro stakes_ok_update) (simp_all add: ledger_ok_alt)
    then show ?thesis using assms unfolding e by (simp add: ledger_ok_alt)
  qed
qed


lemma ledger_ok_elch [simp]: "ledger_ok (w\<lparr>elch := e\<rparr>) = ledger_ok w"
  by (simp add: ledger_ok_def)

lemma ledger_ok_step:
  assumes "ledger_ok w" and "patch_nonneg c"
  shows "ledger_ok (step env now c w)"
proof (cases c)
  case (TeamJoin i n a)
  then show ?thesis using assms(1) by (simp add: ledger_ok_teamJoin)
next
  case (TeamSetStake i st uj)
  then show ?thesis using assms(1) by (simp add: ledger_ok_teamSetStake)
next
  case (TeamElchBuzz i)
  then show ?thesis using assms(1) by (simp add: teamSubmit_Elch_buzz_def Let_def)
next
  case (AdminTeamUpdate i p)
  then show ?thesis using assms by (simp add: ledger_ok_adminTeamUpdate)
next
  case (AdminTeamKick i)
  then show ?thesis using assms(1)
    by (simp add: adminTeamKick_def Let_def ledger_ok_alt coins_ok_delete stakes_ok_delete)
next
  case (AdminStartCategory cat)
  then show ?thesis using assms(1) by (simp add: adminStartCategory_def Let_def ledger_ok_def)
next
  case (AdminSetTeamLimit l)
  then show ?thesis using assms(1) by (simp add: adminSetTeamLimit_def Let_def ledger_ok_def)
next
  case AdminLockStakes
  then show ?thesis using assms(1) by (simp add: ledger_ok_lock)
next
  case (AdminResolveRound a)
  then show ?thesis using assms(1) by (simp add: ledger_ok_resolve)
next
  case AdminRoundEnd
  then show ?thesis using assms(1)
    by (simp add: adminRoundEnd_def ledger_ok_def split: option.splits)
next
  case (AdminRoundUndo sn)
  then show ?thesis using assms(1)
    by (simp add: adminRoundUndo_def Let_def ledger_ok_alt coins_ok_restore split: option.splits)
next
  case AdminRoundNext
  then show ?thesis using assms(1)
    by (simp add: adminRoundNext_def elch_rearm_def Let_def ledger_ok_alt)
next
  case AdminRoundPrev
  then show ?thesis using assms(1)
    by (simp add: adminRoundPrev_def elch_rearm_def Let_def ledger_ok_alt)
next
  case AdminFinishCategory
  then show ?thesis using assms(1) by (simp add: adminFinishCategory_def ledger_ok_def)
next
  case AdminGotoLobby
  then show ?thesis using assms(1) by (simp add: adminGotoLobby_def ledger_ok_def)
next
  case (AdminTimerStart sec)
  then show ?thesis using assms(1) by (simp add: adminTimerStart_def Let_def ledger_ok_def)
next
  case AdminTimerStop
  then show ?thesis using assms(1) by (simp add: adminTimerStop_def Let_def ledger_ok_def)
next
  case AdminTimerReset
  then show ?thesis using assms(1) by (simp add: adminTimerReset_def ledger_ok_def)
next
  case AdminTimerResume
  then show ?thesis using assms(1) by (simp add: adminTimerResume_def Let_def ledger_ok_def)
next
  case AdminElchDraw
  then show ?thesis using assms(1) by (simp add: adminElchDraw_def Let_def)
next
  case (AdminElchSetLock l)
  then show ?thesis using assms(1) by (simp add: adminElchSetLock_def Let_def)
next
  case AdminElchClearBuzz
  then show ?thesis using assms(1) by (simp add: adminElchClearBuzz_def Let_def)
next
  case (AdminElchConfirm t)
  then show ?thesis using assms(1)
    by (simp add: adminElchConfirm_def Let_def ledger_ok_resolve)
next
  case AdminElchUnlock
  then show ?thesis using assms(1) by (simp add: adminElchUnlock_def)
next
  case (AdminRaceSet m)
  then show ?thesis using assms(1)
    by (simp add: adminRaceSet_def ledger_ok_def split: option.splits)
next
  case AdminResetAll
  then show ?thesis using assms(1) by (simp add: adminResetAll_def ledger_ok_def)
next
  case TimerTick
  then show ?thesis using assms(1) by (simp add: timerTick_def ledger_ok_def)
next
  case ElchAutoUnlockTick
  then show ?thesis using assms(1) by (simp add: elchAutoUnlockTick_def)
next
  case RaceAutoPost
  then show ?thesis using assms(1) by (simp add: raceAutoPost_def ledger_ok_def)
qed

lemma ledger_ok_run:
  "ledger_ok w \<Longrightarrow> \<forall>c \<in> set cs. patch_nonneg (snd c) \<Longrightarrow> ledger_ok (run env cs w)"
  by (induction cs arbitrary: w) (simp_all add: ledger_ok_step)

lemma coins_nonneg_reachable:
  assumes "\<forall>c \<in> set cs. patch_nonneg (snd c)"
    and "map_of (teams (run env cs initial_game)) i = Some t"
  shows "0 \<le> coins t"
proof -
  have "ledger_ok initial_game" by (simp add: ledger_ok_def initial_game_def)
  then have "ledger_ok (run env cs initial_game)" using assms(1) by (rule ledger_ok_run)
  then show ?thesis using assms(2) by (simp add: ledger_ok_def)
qed


text \<open>
  C6. No team's coins are ever negative. \<^verbatim>\<open>adminLockStakes\<close> and
  \<^verbatim>\<open>adminRoundUndo\<close> clamp what they write at 0, but \<^verbatim>\<open>adminTeamUpdate\<close> stores any
  number it is given: after a team joins with 24 coins, an update with \<open>coins = -5\<close>
  leaves the team with \<open>-5\<close> coins.
\<close>

theorem adminTeamUpdate_negative_coins:
  "map_option coins (map_of (teams (teamJoin 0 ''A'' None None initial_game)) ''A'') = Some 24
   \<and> map_option coins
        (map_of (teams (adminTeamUpdate ''A'' patch_negative
                          (teamJoin 0 ''A'' None None initial_game))) ''A'') = Some (- 5)"
  by (simp add: teamJoin_def adminTeamUpdate_def patch_negative_def initial_game_def Let_def
      truthy_str_def AVATAR_POOL_def digit_string_def)

section \<open>Restart\<close>

text \<open>The fields a restart brings back, for every state.\<close>

lemma restart_restores:
  "phase (restart now w) = phase w"
  "currentCategory (restart now w) = currentCategory w"
  "roundIndex (restart now w) = roundIndex w"
  "stakes (restart now w) = stakes w"
  "categoryPot (restart now w) = categoryPot w"
  "carryRound (restart now w) = carryRound w"
  "submissions (restart now w) = submissions w"
  "fuchsHistory (restart now w) = fuchsHistory w"
  "joinCode (restart now w) = joinCode w"
  "teamLimit (restart now w) = teamLimit w"
  "timerEndsAt (restart now w) = timerEndsAt w"
  "timerDuration (restart now w) = timerDuration w"
  "timerPausedRemaining (restart now w) = timerPausedRemaining w"
  "elch (restart now w) = elch w"
  "raceMode (restart now w) = raceMode w"
  by (simp_all add: restart_def loadPersisted_def snapshotState_def serializeState_def
      snapshot.truncate_def Let_def)

text \<open>The fields that \<^verbatim>\<open>serializeState\<close> does not hold are back at their initial values
  after a restart, whatever they were.\<close>

lemma restart_resets:
  "resolvedRounds (restart now w) = {}"
  "pendingResult (restart now w) = None"
  "lastResult (restart now w) = None"
  "roundWins (restart now w) = []"
  "categoryEarnings (restart now w) = []"
  "lastTimerEnd (restart now w) = None"
  by (simp_all add: restart_def loadPersisted_def snapshotState_def serializeState_def
      snapshot.truncate_def Let_def initial_game_def)

lemma game_resolved_fields:
  "resolvedRounds game_resolved = {(''Hase'', 0)}"
  "map_option r_winnerId (pendingResult game_resolved) = Some (Some ''A'')"
  "isRoundResolved game_resolved"
  "phase game_resolved = CATEGORY"
  "map_option coins (map_of (teams game_resolved) ''A'') = Some 27"
  by (simp_all add: game_resolved_def game_locked_eval)
     (simp_all add: resolve_defs initial_game_def args_A_def teamA_def teamB_def)

text \<open>
  C7. A restart restores every field of the state but \<^verbatim>\<open>serverNow\<close>, among them
  \<^verbatim>\<open>resolvedRounds\<close> and \<^verbatim>\<open>pendingResult\<close>. The snapshot that is written is
  \<^verbatim>\<open>serializeState()\<close> without \<^verbatim>\<open>serverNow\<close>, and \<^verbatim>\<open>serializeState\<close> holds neither
  \<^verbatim>\<open>resolvedRounds\<close> nor \<^verbatim>\<open>pendingResult\<close>: after the first round of Hase was
  resolved for team A (27 coins), a restart comes back with no resolved round and no
  pending result, and the same resolve call, a no-op before the restart, pays team A
  again (33 coins).
\<close>

theorem restart_loses_resolution:
  "resolvedRounds game_resolved = {(''Hase'', 0)}
   \<and> resolvedRounds (restart 9 game_resolved) = {}
   \<and> map_option r_winnerId (pendingResult game_resolved) = Some (Some ''A'')
   \<and> pendingResult (restart 9 game_resolved) = None
   \<and> isRoundResolved game_resolved
   \<and> adminResolveRound 10 args_A game_resolved = game_resolved
   \<and> map_option coins (map_of (teams (restart 9 game_resolved)) ''A'') = Some 27
   \<and> map_option coins
        (map_of (teams (adminResolveRound 10 args_A (restart 9 game_resolved))) ''A'') = Some 33"
  apply (simp add: game_resolved_fields restart_resets resolved_noop)
  apply (simp add: game_resolved_def game_locked_eval)
  apply (simp add: restart_def loadPersisted_def snapshotState_def serializeState_def
      snapshot.truncate_def snapshotTeams_def resolve_defs initial_game_def args_A_def
      teamA_def teamB_def)
  done

section \<open>Setting a stake\<close>

text \<open>
  C8. For a call of \<^verbatim>\<open>teamSetStake\<close> in phase \<^verbatim>\<open>STAKE\<close> by a registered team: an
  amount outside the allowed set (\<open>{0,3,6}\<close>, with 9 when the team limit exceeds 2) is
  stored as 0; with fewer than 3 coins any positive amount is stored as 0; any other
  amount is stored as it is; the joker is stored as applied exactly when it was
  requested, the team holds a joker and the stored amount is positive, so only when
  the stored amount is positive and the team holds at least one joker. Outside phase
  \<^verbatim>\<open>STAKE\<close> the call changes nothing, so the stakes are unchanged.
\<close>

theorem setStake_stored:
  "(phase w = STAKE \<and> map_of (teams w) i = Some t \<longrightarrow>
      (\<exists>e. map_of (stakes (teamSetStake i st uj w)) i = Some e
         \<and> (st \<notin> (if teamLimit w > 2 then {0, 3, 6, 9} else {0, 3, 6}) \<longrightarrow> stake e = 0)
         \<and> (coins t < 3 \<and> st > 0 \<longrightarrow> stake e = 0)
         \<and> (st \<in> (if teamLimit w > 2 then {0, 3, 6, 9} else {0, 3, 6})
              \<and> \<not> (coins t < 3 \<and> st > 0) \<longrightarrow> stake e = st)
         \<and> (useJoker e \<longrightarrow> stake e > 0 \<and> quizJoker t \<ge> 1)
         \<and> (useJoker e \<longleftrightarrow> uj \<and> quizJoker t > 0 \<and> stake e > 0)))
   \<and> (phase w \<noteq> STAKE \<longrightarrow> teamSetStake i st uj w = w)"
  by (auto simp: teamSetStake_def Let_def dynamicValid_def update_conv')

theorem setStake_stored_witness:
  "map_of (stakes (teamSetStake ''A'' 9 True game_stake2)) ''A''
      = Some \<lparr>stake = 0, useJoker = False\<rparr>
   \<and> map_of (stakes (teamSetStake ''B'' 3 True game_stake2)) ''B''
      = Some \<lparr>stake = 0, useJoker = False\<rparr>
   \<and> map_of (stakes (teamSetStake ''A'' 6 True game_stake2)) ''A''
      = Some \<lparr>stake = 6, useJoker = True\<rparr>
   \<and> teamSetStake ''A'' 6 True game_locked = game_locked"
proof -
  have p: "phase game_stake2 = STAKE" "teamLimit game_stake2 = 2"
    "map_of (teams game_stake2) ''A'' = Some teamA"
    "map_of (teams game_stake2) ''B'' = Some (teamB\<lparr>coins := 2\<rparr>)"
    by (simp_all add: game_stake2_def initial_game_def)
  have q: "phase game_locked \<noteq> STAKE" by (simp add: game_locked_eval)
  have c: "coins teamA = 24" "quizJoker teamA = 1" "coins teamB = 24"
    by (simp_all add: teamA_def teamB_def)
  from setStake_stored [of game_stake2 "''A''" teamA 9 True] p c
  have 1: "map_of (stakes (teamSetStake ''A'' 9 True game_stake2)) ''A''
      = Some \<lparr>stake = 0, useJoker = False\<rparr>"
    by auto
  from setStake_stored [of game_stake2 "''B''" "teamB\<lparr>coins := 2\<rparr>" 3 True] p c
  have 2: "map_of (stakes (teamSetStake ''B'' 3 True game_stake2)) ''B''
      = Some \<lparr>stake = 0, useJoker = False\<rparr>"
    by auto
  from setStake_stored [of game_stake2 "''A''" teamA 6 True] p c
  have 3: "map_of (stakes (teamSetStake ''A'' 6 True game_stake2)) ''A''
      = Some \<lparr>stake = 6, useJoker = True\<rparr>"
    by auto
  from setStake_stored [of game_locked "''A''" teamA 6 True] q
  have 4: "teamSetStake ''A'' 6 True game_locked = game_locked" by simp
  from 1 2 3 4 show ?thesis by simp
qed

section \<open>The buzzer\<close>

lemma normalize_Elch [simp]: "normalizeCategory (Some cat_Elch) = Some cat_Elch"
  by (simp add: normalizeCategory_def truthy_str_def cat_Elch_def cat_Baer_mojibake_def)

lemma buzz_locked_noop: "buzzLocked (elch w) \<Longrightarrow> teamSubmit_Elch_buzz env now j w = w"
  by (simp add: teamSubmit_Elch_buzz_def Let_def)

lemma buzz_repeat_noop:
  "i \<in> fst ` set (buzzOrder (elch w)) \<Longrightarrow> teamSubmit_Elch_buzz env now i w = w"
  by (simp add: teamSubmit_Elch_buzz_def Let_def)

lemma elch_adminResolveRound [simp]: "elch (adminResolveRound now a w) = elch w"
proof -
  have c: "elch (creditWinner g i v) = elch v" for g i v
    by (simp add: creditWinner_def split: option.splits)
  have f: "elch (fold (creditWinner g) ids v) = elch v" for g ids v
    by (induction ids arbitrary: v) (simp_all add: c)
  have s: "elch (fst (settle w a)) = elch w"
    by (simp add: settle_def Let_def c f split: option.splits)
  show ?thesis
    using s by (auto simp: adminResolveRound_def Let_def split: prod.splits)
qed

lemma elch_autopick_buzzOrder [simp]: "buzzOrder (elch_autopick r e) = buzzOrder e"
  by (simp add: elch_autopick_def Let_def)

lemma locked_step_buzzOrder:
  assumes "buzzLocked (elch w)"
  shows "set (buzzOrder (elch (step env now c w))) \<subseteq> set (buzzOrder (elch w))
       \<and> length (buzzOrder (elch (step env now c w))) \<le> length (buzzOrder (elch w))"
proof (cases c)
  case (TeamElchBuzz i)
  then show ?thesis using assms by (simp add: buzz_locked_noop)
next
  case (TeamJoin i n a)
  then show ?thesis by (simp add: teamJoin_def Let_def split: option.splits)
next
  case (TeamSetStake i st uj)
  then show ?thesis by (simp add: teamSetStake_def Let_def split: option.splits)
next
  case (AdminTeamUpdate i p)
  then show ?thesis by (simp add: adminTeamUpdate_def Let_def split: option.splits)
next
  case (AdminTeamKick i)
  then show ?thesis by (auto simp: adminTeamKick_def Let_def)
next
  case (AdminStartCategory cat)
  then show ?thesis by (simp add: adminStartCategory_def Let_def initial_elch_def)
next
  case (AdminSetTeamLimit l)
  then show ?thesis by (simp add: adminSetTeamLimit_def Let_def)
next
  case AdminLockStakes
  then show ?thesis by (simp add: adminLockStakes_def)
next
  case (AdminResolveRound a)
  then show ?thesis by simp
next
  case AdminRoundEnd
  then show ?thesis by (simp add: adminRoundEnd_def split: option.splits)
next
  case (AdminRoundUndo sn)
  have u: "elch (uncreditWinner l i v) = elch v" for l i v
    by (simp add: uncreditWinner_def Let_def)
  have f: "elch (fold (uncreditWinner l) ids v) = elch v" for l ids v
    by (induction ids arbitrary: v) (simp_all add: u)
  from AdminRoundUndo show ?thesis
    by (simp add: adminRoundUndo_def Let_def f split: option.splits)
next
  case AdminRoundNext
  then show ?thesis by (simp add: adminRoundNext_def elch_rearm_def Let_def)
next
  case AdminRoundPrev
  then show ?thesis by (simp add: adminRoundPrev_def elch_rearm_def Let_def)
next
  case AdminFinishCategory
  then show ?thesis by (simp add: adminFinishCategory_def initial_elch_def)
next
  case AdminGotoLobby
  then show ?thesis by (simp add: adminGotoLobby_def initial_elch_def)
next
  case (AdminTimerStart sec)
  then show ?thesis by (simp add: adminTimerStart_def Let_def)
next
  case AdminTimerStop
  then show ?thesis by (simp add: adminTimerStop_def Let_def)
next
  case AdminTimerReset
  then show ?thesis by (simp add: adminTimerReset_def)
next
  case AdminTimerResume
  then show ?thesis by (simp add: adminTimerResume_def Let_def)
next
  case AdminElchDraw
  then show ?thesis by (simp add: adminElchDraw_def Let_def)
next
  case (AdminElchSetLock l)
  then show ?thesis by (simp add: adminElchSetLock_def Let_def)
next
  case AdminElchClearBuzz
  then show ?thesis by (simp add: adminElchClearBuzz_def Let_def)
next
  case (AdminElchConfirm t)
  then show ?thesis by (simp add: adminElchConfirm_def Let_def)
next
  case AdminElchUnlock
  then show ?thesis by (simp add: adminElchUnlock_def)
next
  case (AdminRaceSet m)
  then show ?thesis by (simp add: adminRaceSet_def split: option.splits)
next
  case AdminResetAll
  then show ?thesis by (simp add: adminResetAll_def)
next
  case TimerTick
  then show ?thesis by (simp add: timerTick_def)
next
  case ElchAutoUnlockTick
  then show ?thesis by (simp add: elchAutoUnlockTick_def)
next
  case RaceAutoPost
  then show ?thesis by (simp add: raceAutoPost_def)
qed

lemma game_elch_eval:
  "game_elch = initial_game\<lparr> phase := CATEGORY, currentCategory := Some cat_Elch,
      categoryPot := 3,
      elch := initial_elch\<lparr>elch_category := Some (fst (elch_fixed 0)),
                used := [fst (elch_fixed 0)], ephase := Some BUZZ_READY\<rparr>,
      teams := [(''A'', teamA), (''B'', teamB)] \<rparr>"
  by (simp add: game_elch_def teams_joined)
     (simp add: adminStartCategory_def adminLockStakes_def initial_game_def Let_def
      normalizeCategory_def truthy_str_def cat_Elch_def cat_Baer_mojibake_def
      elch_autopick_def initial_elch_def sumEinsatz_def jokerExtra_def)

lemma game_elch_fields:
  "phase game_elch = CATEGORY" "normalizeCategory (currentCategory game_elch) = Some cat_Elch"
  "\<not> too_late 1000 game_elch" "truthy_str (elch_category (elch game_elch))"
  "buzzOrder (elch game_elch) = []" "\<not> buzzLocked (elch game_elch)"
  "buzzAnswerEndsAt (elch game_elch) = None"
  by (simp_all add: game_elch_eval)
     (simp_all add: initial_game_def initial_elch_def too_late_def truthy_str_def elch_fixed_def)

lemma game_elch_stale_eval:
  "game_elch_stale = game_elch\<lparr>elch := (elch game_elch)\<lparr> ephase := Some LOCK,
        buzzAnswerEndsAt := Some 46000 \<rparr>, teams := [(''B'', teamB)] \<rparr>"
  by (simp add: game_elch_stale_def game_elch_eval)
     (simp add: teamSubmit_Elch_buzz_def adminTeamKick_def adminElchSetLock_def
      initial_game_def initial_elch_def Let_def too_late_def truthy_str_def truthy_num_def
      has_team_def elch_fixed_def ELCH_ANSWER_WINDOW_MS_def cat_Elch_def
      normalizeCategory_def cat_Baer_mojibake_def)

text \<open>
  C9, as amended. A buzz that passes the checks of phase, category and grace window
  while a label is drawn, the buzz order is empty and the buzzer is not locked makes
  the buzz order the singleton of that team, locks the buzzer, moves the buzzer phase to
  \<^verbatim>\<open>LOCK\<close> and, unless an answer window is already recorded (which is then kept), opens
  the answer window at \<open>now\<close> plus the configured window, 45 s by default. While the
  buzzer is locked a buzz of any team returns the state unchanged, as does a repeated
  buzz of a team that is in the buzz order; and while it is locked no command of the
  command surface adds an entry to the buzz order.
\<close>

theorem first_buzz_locks:
  "(phase w = CATEGORY \<and> normalizeCategory (currentCategory w) = Some cat_Elch
      \<and> \<not> too_late now w \<and> truthy_str (elch_category (elch w))
      \<and> buzzOrder (elch w) = [] \<and> \<not> buzzLocked (elch w) \<longrightarrow>
        teamSubmit_Elch_buzz env now i w =
          w\<lparr>elch := (elch w)\<lparr> buzzOrder := [(i, now)], buzzLocked := True, ephase := Some LOCK,
                buzzAnswerEndsAt :=
                  (if truthy_num (buzzAnswerEndsAt (elch w)) then buzzAnswerEndsAt (elch w)
                   else Some (now + ELCH_ANSWER_WINDOW_MS env)) \<rparr>\<rparr>)
   \<and> ELCH_ANSWER_WINDOW_MS None = 45000
   \<and> (buzzLocked (elch w) \<longrightarrow> teamSubmit_Elch_buzz env now j w = w)
   \<and> (i \<in> fst ` set (buzzOrder (elch w)) \<longrightarrow> teamSubmit_Elch_buzz env now i w = w)
   \<and> (buzzLocked (elch w) \<longrightarrow>
        set (buzzOrder (elch (step env now c w))) \<subseteq> set (buzzOrder (elch w))
        \<and> length (buzzOrder (elch (step env now c w))) \<le> length (buzzOrder (elch w)))"
proof (intro conjI impI)
  assume "phase w = CATEGORY \<and> normalizeCategory (currentCategory w) = Some cat_Elch
      \<and> \<not> too_late now w \<and> truthy_str (elch_category (elch w))
      \<and> buzzOrder (elch w) = [] \<and> \<not> buzzLocked (elch w)"
  then show "teamSubmit_Elch_buzz env now i w =
          w\<lparr>elch := (elch w)\<lparr> buzzOrder := [(i, now)], buzzLocked := True, ephase := Some LOCK,
                buzzAnswerEndsAt :=
                  (if truthy_num (buzzAnswerEndsAt (elch w)) then buzzAnswerEndsAt (elch w)
                   else Some (now + ELCH_ANSWER_WINDOW_MS env)) \<rparr>\<rparr>"
    by (simp add: teamSubmit_Elch_buzz_def Let_def)
next
  show "ELCH_ANSWER_WINDOW_MS None = 45000" by (simp add: ELCH_ANSWER_WINDOW_MS_def)
next
  assume "buzzLocked (elch w)"
  then show "teamSubmit_Elch_buzz env now j w = w" by (rule buzz_locked_noop)
next
  assume "i \<in> fst ` set (buzzOrder (elch w))"
  then show "teamSubmit_Elch_buzz env now i w = w" by (rule buzz_repeat_noop)
next
  assume l: "buzzLocked (elch w)"
  from locked_step_buzzOrder [OF l]
  show "set (buzzOrder (elch (step env now c w))) \<subseteq> set (buzzOrder (elch w))" by blast
  from locked_step_buzzOrder [OF l]
  show "length (buzzOrder (elch (step env now c w))) \<le> length (buzzOrder (elch w))" by blast
qed

theorem first_buzz_locks_witness:
  "elch (teamSubmit_Elch_buzz None 1000 ''A'' game_elch) =
      (elch game_elch)\<lparr> buzzOrder := [(''A'', 1000)], buzzLocked := True, ephase := Some LOCK,
                        buzzAnswerEndsAt := Some 46000 \<rparr>
   \<and> teamSubmit_Elch_buzz None 1500 ''B'' (teamSubmit_Elch_buzz None 1000 ''A'' game_elch)
        = teamSubmit_Elch_buzz None 1000 ''A'' game_elch
   \<and> teamSubmit_Elch_buzz None 1600 ''A'' (teamSubmit_Elch_buzz None 1000 ''A'' game_elch)
        = teamSubmit_Elch_buzz None 1000 ''A'' game_elch"
proof -
  let ?w1 = "teamSubmit_Elch_buzz None 1000 ''A'' game_elch"
  from first_buzz_locks [of game_elch 1000 None "''A''"] game_elch_fields
  have 1: "?w1 = game_elch\<lparr>elch := (elch game_elch)\<lparr> buzzOrder := [(''A'', 1000)],
              buzzLocked := True, ephase := Some LOCK, buzzAnswerEndsAt := Some 46000 \<rparr>\<rparr>"
    by (simp add: truthy_num_def)
  then have l: "buzzLocked (elch ?w1)" and a: "''A'' \<in> fst ` set (buzzOrder (elch ?w1))"
    by simp_all
  from first_buzz_locks [of ?w1 1500 None "''A''" "''B''"] l
  have 2: "teamSubmit_Elch_buzz None 1500 ''B'' ?w1 = ?w1" by simp
  from first_buzz_locks [of ?w1 1600 None "''A''" "''A''"] a
  have 3: "teamSubmit_Elch_buzz None 1600 ''A'' ?w1 = ?w1" by blast
  from 1 2 3 show ?thesis by simp
qed

text \<open>
  The claim as stated, the window opens at \<open>now + 45 s\<close> at every first accepted buzz,
  fails where a window is still recorded: the code assigns it only under
  \<^verbatim>\<open>if(!state.elch.buzzAnswerEndsAt)\<close>. After team A buzzed at 1000 (window until
  46000), was kicked, and the admin released the lock with \<^verbatim>\<open>adminElchSetLock\<close>, the
  buzz of team B at 2000 is the first of an empty buzz order and locks, and the window
  stays at 46000.
\<close>

theorem first_buzz_window_counterexample:
  "truthy_str (elch_category (elch game_elch_stale))
   \<and> buzzOrder (elch game_elch_stale) = []
   \<and> \<not> buzzLocked (elch game_elch_stale)
   \<and> buzzOrder (elch (teamSubmit_Elch_buzz None 2000 ''B'' game_elch_stale)) = [(''B'', 2000)]
   \<and> buzzLocked (elch (teamSubmit_Elch_buzz None 2000 ''B'' game_elch_stale))
   \<and> buzzAnswerEndsAt (elch (teamSubmit_Elch_buzz None 2000 ''B'' game_elch_stale)) = Some 46000
   \<and> buzzAnswerEndsAt (elch (teamSubmit_Elch_buzz None 2000 ''B'' game_elch_stale))
        \<noteq> Some (2000 + 45000)"
  by (simp add: game_elch_stale_eval game_elch_eval)
     (simp add: teamSubmit_Elch_buzz_def
      initial_game_def initial_elch_def Let_def too_late_def truthy_str_def truthy_num_def
      elch_fixed_def ELCH_ANSWER_WINDOW_MS_def cat_Elch_def
      normalizeCategory_def cat_Baer_mojibake_def)


section \<open>The idempotency guard\<close>

lemma map_of_filter_keep:
  "map_of xs a = Some v \<Longrightarrow> P (a, v) \<Longrightarrow> map_of (filter P xs) a = Some v"
  by (induction xs) (auto split: if_splits)

lemma map_of_filter_None:
  "map_of xs a = None \<Longrightarrow> map_of (filter P xs) a = None"
  by (induction xs) (auto split: if_splits)

lemma purge_keeps:
  "map_of (recent g) a = Some ts \<Longrightarrow> t - ts \<le> IDEMP_WINDOW_MS \<Longrightarrow>
   map_of (recent (purge t g)) a = Some ts"
  by (simp add: purge_def map_of_filter_keep)

lemma purge_fresh:
  "map_of (recent g) a = None \<Longrightarrow> map_of (recent (purge t g)) a = None"
  by (simp add: purge_def map_of_filter_None)

text \<open>An entry stays in the table through any call made within the window of its
  time stamp, whatever the action id of that call.\<close>

lemma isDuplicateAction_keeps:
  assumes "map_of (recent g) a = Some ts" and "t - ts \<le> IDEMP_WINDOW_MS"
  shows "map_of (recent (snd (isDuplicateAction t b g))) a = Some ts"
proof (cases "truthy_str b")
  case True
  then show ?thesis
    using purge_keeps [OF assms]
    by (auto simp: isDuplicateAction_def Let_def update_conv')
next
  case False
  then show ?thesis using assms(1) by (simp add: isDuplicateAction_def)
qed

lemma guard_calls_keep:
  assumes "map_of (recent g) a = Some ts" and "\<forall>c \<in> set cs. fst c - ts \<le> IDEMP_WINDOW_MS"
  shows "map_of (recent (guard_calls cs g)) a = Some ts"
  using assms unfolding guard_calls_def
proof (induction cs arbitrary: g)
  case Nil
  then show ?case by simp
next
  case (Cons c cs)
  then show ?case by (simp add: isDuplicateAction_keeps)
qed

lemma isDuplicateAction_seen:
  assumes "a \<noteq> []" and "map_of (recent g) a = Some ts" and "t - ts \<le> IDEMP_WINDOW_MS"
  shows "fst (isDuplicateAction t (Some a) g)"
  using purge_keeps [OF assms(2,3)] assms(1)
  by (simp add: isDuplicateAction_def Let_def truthy_str_def)

lemma isDuplicateAction_fresh:
  assumes "a \<noteq> []" and "map_of (recent g) a = None"
  shows "\<not> fst (isDuplicateAction t (Some a) g)"
    and "map_of (recent (snd (isDuplicateAction t (Some a) g))) a = Some t"
  using purge_fresh [OF assms(2)] assms(1)
  by (simp_all add: isDuplicateAction_def Let_def truthy_str_def update_conv')

lemma handle_guarded:
  "consults_guard c \<Longrightarrow>
   handle env now sock aid c gw =
     (fst (guarded now aid (step env now c) gw),
      second_listener c (snd (guarded now aid (step env now c) gw)))"
  by (cases c) (simp_all add: handle_def Let_def)

text \<open>The handler of \<^verbatim>\<open>team:setStake\<close> is the routing of its command.\<close>

lemma on_team_setStake_handle:
  "on_team_setStake now i aid st uj gw = handle env now s aid (TeamSetStake i st uj) gw"
proof -
  have "step env now (TeamSetStake i st uj) = teamSetStake i st uj"
    by (rule ext) simp
  then show ?thesis
    by (cases gw) (simp add: on_team_setStake_def handle_def second_listener_def Let_def)
qed

lemma guarded_first:
  assumes "a \<noteq> []" and "map_of (recent g) a = None"
  shows "guarded now1 (Some a) op (g, v) = (snd (isDuplicateAction now1 (Some a) g), op v)"
  using isDuplicateAction_fresh(1) [OF assms, of now1]
  by (cases "isDuplicateAction now1 (Some a) g") (simp add: guarded_def)

lemma guarded_second:
  assumes "a \<noteq> []" and "map_of (recent g') a = Some now1" and "now2 - now1 \<le> IDEMP_WINDOW_MS"
  shows "snd (guarded now2 (Some a) op (g', v)) = v"
  using isDuplicateAction_seen [OF assms]
  by (cases "isDuplicateAction now2 (Some a) g'") (simp add: guarded_def)

text \<open>
  C10, as amended. For the events whose handler consults the guard, and an action id
  that the table does not hold: the first invocation applies its operation; a second
  invocation with the same id that arrives within the 10-second window of the first
  returns before the operation of its handler, whatever operation that is and whatever
  guarded calls, each within the window, came in between (only the unguarded second
  listener of its event runs). The same holds for every handler of the guarded shape,
  whatever its operation, which covers the handlers of the category submissions; so
  two \<^verbatim>\<open>team:setStake\<close> calls with one action id leave the stakes as the first call
  alone does. An invocation without an action id (absent or empty) applies its
  operation.
\<close>

theorem duplicate_action_dropped:
  "(a \<noteq> [] \<and> map_of (recent g) a = None \<and> now2 - now1 \<le> IDEMP_WINDOW_MS
      \<and> (\<forall>c \<in> set cs. fst c - now1 \<le> IDEMP_WINDOW_MS)
      \<and> consults_guard c1 \<and> consults_guard c2 \<longrightarrow>
        snd (handle env now1 s1 (Some a) c1 (g, w)) = second_listener c1 (step env now1 c1 w)
      \<and> snd (handle env now2 s2 (Some a) c2
               (guard_calls cs (fst (handle env now1 s1 (Some a) c1 (g, w))), w'))
          = second_listener c2 w'
      \<and> snd (guarded now1 (Some a) op1 (g, w)) = op1 w
      \<and> snd (guarded now2 (Some a) op2
               (guard_calls cs (fst (guarded now1 (Some a) op1 (g, w))), w')) = w'
      \<and> stakes (snd (on_team_setStake now2 i (Some a) st2 uj2
                        (on_team_setStake now1 i (Some a) st1 uj1 (g, w))))
          = stakes (teamSetStake i st1 uj1 w))
   \<and> (\<not> truthy_str aid \<and> consults_guard c \<longrightarrow>
        snd (handle env now s aid c (g, w)) = second_listener c (step env now c w))
   \<and> (\<not> truthy_str aid \<longrightarrow> snd (guarded now aid op (g, w)) = op w)
   \<and> IDEMP_WINDOW_MS = 10000"
proof (intro conjI impI)
  assume h: "a \<noteq> [] \<and> map_of (recent g) a = None \<and> now2 - now1 \<le> IDEMP_WINDOW_MS
      \<and> (\<forall>c \<in> set cs. fst c - now1 \<le> IDEMP_WINDOW_MS)
      \<and> consults_guard c1 \<and> consults_guard c2"
  then have a: "a \<noteq> []" and f: "map_of (recent g) a = None"
    and n: "now2 - now1 \<le> IDEMP_WINDOW_MS"
    and c: "\<forall>c \<in> set cs. fst c - now1 \<le> IDEMP_WINDOW_MS"
    and c1: "consults_guard c1" and c2: "consults_guard c2" by auto
  let ?g1 = "snd (isDuplicateAction now1 (Some a) g)"
  note first = guarded_first [OF a f]
  have rec: "map_of (recent ?g1) a = Some now1"
    by (rule isDuplicateAction_fresh(2) [OF a f])
  show "snd (handle env now1 s1 (Some a) c1 (g, w)) = second_listener c1 (step env now1 c1 w)"
    by (simp add: handle_guarded [OF c1] first)
  have k: "map_of (recent (guard_calls cs (fst (handle env now1 s1 (Some a) c1 (g, w))))) a
             = Some now1"
    by (simp add: handle_guarded [OF c1] first guard_calls_keep [OF rec c])
  show "snd (handle env now2 s2 (Some a) c2
               (guard_calls cs (fst (handle env now1 s1 (Some a) c1 (g, w))), w'))
          = second_listener c2 w'"
    by (simp add: handle_guarded [OF c2] guarded_second [OF a k n])
  show "snd (guarded now1 (Some a) op1 (g, w)) = op1 w"
    by (simp add: first)
  show "snd (guarded now2 (Some a) op2
               (guard_calls cs (fst (guarded now1 (Some a) op1 (g, w))), w')) = w'"
    by (rule guarded_second [OF a _ n]) (simp add: first guard_calls_keep [OF rec c])
  show "stakes (snd (on_team_setStake now2 i (Some a) st2 uj2
                        (on_team_setStake now1 i (Some a) st1 uj1 (g, w))))
          = stakes (teamSetStake i st1 uj1 w)"
    by (simp add: on_team_setStake_def first guarded_second [OF a rec n])
next
  assume "\<not> truthy_str aid \<and> consults_guard c"
  then show "snd (handle env now s aid c (g, w)) = second_listener c (step env now c w)"
    by (simp add: handle_guarded guarded_def isDuplicateAction_def)
next
  assume "\<not> truthy_str aid"
  then show "snd (guarded now aid op (g, w)) = op w"
    by (simp add: guarded_def isDuplicateAction_def)
next
  show "IDEMP_WINDOW_MS = 10000" by (simp add: IDEMP_WINDOW_MS_def)
qed

theorem duplicate_action_dropped_witness:
  "stakes (snd (on_team_setStake 1000 ''A'' (Some ''act-1'') 3 False (initial_guard, game_stake2)))
      = [(''A'', \<lparr>stake = 3, useJoker = False\<rparr>)]
   \<and> stakes (snd (on_team_setStake 9000 ''A'' (Some ''act-1'') 6 True
        (on_team_setStake 1000 ''A'' (Some ''act-1'') 3 False (initial_guard, game_stake2))))
      = [(''A'', \<lparr>stake = 3, useJoker = False\<rparr>)]
   \<and> stakes (snd (on_team_setStake 9000 ''A'' None 6 True
        (on_team_setStake 1000 ''A'' None 3 False (initial_guard, game_stake2))))
      = [(''A'', \<lparr>stake = 6, useJoker = True\<rparr>)]"
proof -
  have h: "''act-1'' \<noteq> [] \<and> map_of (recent initial_guard) ''act-1'' = None
      \<and> (9000::int) - 1000 \<le> IDEMP_WINDOW_MS
      \<and> (\<forall>c \<in> set ([] :: (int \<times> string option) list). fst c - 1000 \<le> IDEMP_WINDOW_MS)
      \<and> consults_guard (TeamSetStake ''A'' 3 False) \<and> consults_guard (TeamSetStake ''A'' 6 True)"
    by (simp add: initial_guard_def IDEMP_WINDOW_MS_def)
  have s: "stakes (teamSetStake ''A'' 3 False game_stake2)
      = [(''A'', \<lparr>stake = 3, useJoker = False\<rparr>)]"
    by (simp add: teamSetStake_def game_stake2_def initial_game_def Let_def dynamicValid_def
        teamA_def)
  have s6: "stakes (teamSetStake ''A'' 6 True (teamSetStake ''A'' 3 False game_stake2))
      = [(''A'', \<lparr>stake = 6, useJoker = True\<rparr>)]"
    by (simp add: teamSetStake_def game_stake2_def initial_game_def Let_def dynamicValid_def
        teamA_def)
  have n: "\<not> truthy_str None \<and> consults_guard (TeamSetStake ''A'' 3 False)"
    "\<not> truthy_str None \<and> consults_guard (TeamSetStake ''A'' 6 True)"
    by (simp_all add: truthy_str_def)
  from duplicate_action_dropped [where a = "''act-1''" and g = initial_guard and ?now2.0 = 9000
      and ?now1.0 = 1000 and cs = "[]" and ?c1.0 = "TeamSetStake ''A'' 3 False"
      and ?c2.0 = "TeamSetStake ''A'' 6 True" and w = game_stake2 and i = "''A''"
      and ?st1.0 = 3 and ?uj1.0 = False and ?st2.0 = 6 and ?uj2.0 = True] h s
  have 1: "stakes (snd (on_team_setStake 9000 ''A'' (Some ''act-1'') 6 True
        (on_team_setStake 1000 ''A'' (Some ''act-1'') 3 False (initial_guard, game_stake2))))
      = [(''A'', \<lparr>stake = 3, useJoker = False\<rparr>)]"
    by simp
  have f: "on_team_setStake t ''A'' None st uj (g', v) = (g', teamSetStake ''A'' st uj v)"
    for t st uj g' v
    using duplicate_action_dropped [where aid = None and c = "TeamSetStake ''A'' st uj"
        and g = g' and w = v and now = t and env = None and s = "''s''"]
    by (simp add: truthy_str_def on_team_setStake_def guarded_def isDuplicateAction_def)
  have 2: "stakes (snd (on_team_setStake 1000 ''A'' (Some ''act-1'') 3 False
                          (initial_guard, game_stake2)))
      = [(''A'', \<lparr>stake = 3, useJoker = False\<rparr>)]"
    using h s by (simp add: on_team_setStake_def guarded_first)
  have 3: "stakes (snd (on_team_setStake 9000 ''A'' None 6 True
        (on_team_setStake 1000 ''A'' None 3 False (initial_guard, game_stake2))))
      = [(''A'', \<lparr>stake = 6, useJoker = True\<rparr>)]"
    by (simp add: f s6)
  from 1 2 3 show ?thesis by simp
qed

text \<open>
  The claim as stated, for every mutating action that carries an action id, fails for
  the events whose handler does not consult the guard: two \<^verbatim>\<open>admin:timer:start\<close>
  events with one action id, 4 seconds apart, both start the timer, and the second moves
  its end from 31000 to 35000.
\<close>

theorem unguarded_action_counterexample:
  "timerEndsAt (snd (handle None 1000 ''s1'' (Some ''act-1'') (AdminTimerStart 30)
                      (initial_guard, initial_game))) = Some 31000
   \<and> timerEndsAt (snd (handle None 5000 ''s1'' (Some ''act-1'') (AdminTimerStart 30)
                        (handle None 1000 ''s1'' (Some ''act-1'') (AdminTimerStart 30)
                           (initial_guard, initial_game)))) = Some 35000"
  by (simp add: handle_def second_listener_def adminTimerStart_def Let_def)

end
